theory Spec2Isabelle
  imports Main "HOL-Library.Word" "HOL-Library.Sublist"
begin

unbundle bit_operations_syntax

section \<open>The process and the kernel it talks to\<close>

text \<open>
  The bootstrap of \<^verbatim>\<open>libcontainer/nsenter/nsexec.c\<close> is sequential C code whose every
  step is a call into the kernel or into libc.  A process is modelled as a state
  transformer over a record \<open>proc\<close> that holds the calls made so far together with the
  answers they got (\<open>trace\<close>), the value of \<^verbatim>\<open>errno\<close> and the two file-scope variables
  \<^verbatim>\<open>logfd\<close> and \<^verbatim>\<open>syncfd\<close>.  The kernel is a parameter: a function from the history
  and the call to the answer.  A theorem that holds for every such function holds for
  every behaviour of the machine the code runs on.

  A C string is a \<open>string\<close> (the bytes before the terminating NUL), a pointer that
  may be \<^verbatim>\<open>NULL\<close> is a \<open>string option\<close>.  Where C leaves the behaviour undefined
  (a \<^verbatim>\<open>NULL\<close> handed to \<^verbatim>\<open>strcmp\<close>, a read behind the netlink buffer) the process
  stops with \<open>Undefined\<close>.
\<close>

type_synonym errno = nat

abbreviation (input) EPERM :: errno where "EPERM \<equiv> 1"
abbreviation (input) ENOENT :: errno where "ENOENT \<equiv> 2"
abbreviation (input) EINTR :: errno where "EINTR \<equiv> 4"
abbreviation (input) EACCES :: errno where "EACCES \<equiv> 13"

text \<open>One slot of an \<^verbatim>\<open>argv\<close> array that has been assigned.\<close>

datatype arg = Arg string | ArgNull

datatype syscall =
    Sys_getenv string
  | Sys_open string int
  | Sys_write int string nat
  | Sys_write_int int int
  | Sys_read int nat
  | Sys_close int
  | Sys_dprintf int string
  | Sys_fprintf_stderr string
  | Sys_fork
  | Sys_execve string "arg list" "arg list"
  | Sys_waitpid int
  | Sys_kill int int
  | Sys_malloc nat
  | Sys_realloc nat
  | Sys_free
  | Sys_socketpair
  | Sys_clone_parent int
  | Sys_prctl_set_name string
  | Sys_prctl_set_dumpable int
  | Sys_unshare "32 word"
  | Sys_setns int "32 word"
  | Sys_mount string "string option" string nat string
  | Sys_setresuid int int int
  | Sys_setsid
  | Sys_setuid int
  | Sys_setgid int
  | Sys_setgroups_empty
  | Sys_ensure_cloned_binary

text \<open>
  An answer of the kernel: a return value, a failure (return value \<open>-1\<close>, \<^verbatim>\<open>errno\<close>
  set), the bytes a \<^verbatim>\<open>read\<close> delivered or the value \<^verbatim>\<open>getenv\<close> found, the two
  descriptors of a \<^verbatim>\<open>socketpair\<close>.
\<close>

datatype sysret = Ok int | Fail errno | Data string | Fds int int

type_synonym event = "syscall \<times> sysret"

type_synonym kernel = "event list \<Rightarrow> syscall \<Rightarrow> sysret"

record proc =
  trace :: "event list"
  errno :: errno
  logfd :: int
  syncfd :: int

datatype halt = Exit int | Execd | Undefined | Hang

datatype 'a res = Val 'a | Stop halt

type_synonym 'a prog = "proc \<Rightarrow> 'a res \<times> proc"

definition ret :: "'a \<Rightarrow> 'a prog" where
  "ret a = (\<lambda>s. (Val a, s))"

definition halt_with :: "halt \<Rightarrow> 'a prog" where
  "halt_with h = (\<lambda>s. (Stop h, s))"

definition bnd :: "'a prog \<Rightarrow> ('a \<Rightarrow> 'b prog) \<Rightarrow> 'b prog" where
  "bnd m f = (\<lambda>s. case m s of (Val a, s') \<Rightarrow> f a s' | (Stop h, s') \<Rightarrow> (Stop h, s'))"

definition sys :: "kernel \<Rightarrow> syscall \<Rightarrow> sysret prog" where
  "sys K c = (\<lambda>s. let r = K (trace s) c in
     (Val r, s\<lparr>trace := trace s @ [(c, r)],
               errno := (case r of Fail e \<Rightarrow> e | _ \<Rightarrow> errno s)\<rparr>))"

text \<open>The C return value of a call, read off the kernel's answer.\<close>

definition rv :: "sysret \<Rightarrow> int" where
  "rv r = (case r of Ok n \<Rightarrow> n | Fail e \<Rightarrow> - 1 | Data bs \<Rightarrow> int (length bs) | Fds a b \<Rightarrow> 0)"

definition get_errno :: "errno prog" where
  "get_errno = (\<lambda>s. (Val (errno s), s))"

definition get_logfd :: "int prog" where
  "get_logfd = (\<lambda>s. (Val (logfd s), s))"

definition get_syncfd :: "int prog" where
  "get_syncfd = (\<lambda>s. (Val (syncfd s), s))"

definition set_logfd :: "int \<Rightarrow> unit prog" where
  "set_logfd fd = (\<lambda>s. (Val (), s\<lparr>logfd := fd\<rparr>))"

definition set_syncfd :: "int \<Rightarrow> unit prog" where
  "set_syncfd fd = (\<lambda>s. (Val (), s\<lparr>syncfd := fd\<rparr>))"

text \<open>The events a run appended to the trace it started from.\<close>

definition emitted :: "proc \<Rightarrow> proc \<Rightarrow> event list" where
  "emitted s s' = drop (length (trace s)) (trace s')"

section \<open>Formatting\<close>

abbreviation (input) NUL :: char where "NUL \<equiv> CHR 0x00"
abbreviation (input) dquote :: char where "dquote \<equiv> CHR 0x22"
abbreviation (input) squote :: char where "squote \<equiv> CHR 0x27"
abbreviation (input) newline :: char where "newline \<equiv> CHR 0x0A"

text \<open>\<^verbatim>\<open>%u\<close> and \<^verbatim>\<open>%d\<close> of \<^verbatim>\<open>printf\<close>.\<close>

fun dec_nat :: "nat \<Rightarrow> string" where
  "dec_nat n = (if n < 10 then [''0123456789'' ! n]
                else dec_nat (n div 10) @ [''0123456789'' ! (n mod 10)])"

declare dec_nat.simps [simp del]

definition dec :: "int \<Rightarrow> string" where
  "dec i = (if i < 0 then CHR ''-'' # dec_nat (nat (- i)) else dec_nat (nat i))"

text \<open>
  \<^verbatim>\<open>%m\<close> prints \<^verbatim>\<open>strerror(errno)\<close>.  libc is not part of the repository; the
  messages of the error numbers the code tests for are tabulated, the others are
  printed by number.
\<close>

definition strerror :: "errno \<Rightarrow> string" where
  "strerror e =
    (if e = 0 then ''Success''
     else if e = EPERM then ''Operation not permitted''
     else if e = ENOENT then ''No such file or directory''
     else if e = EINTR then ''Interrupted system call''
     else if e = EACCES then ''Permission denied''
     else ''Unknown error '' @ dec_nat e)"

section \<open>Logging and \<^verbatim>\<open>bail\<close>\<close>

abbreviation (input) PANIC :: string where "PANIC \<equiv> ''panic''"
abbreviation (input) FATAL :: string where "FATAL \<equiv> ''fatal''"
abbreviation (input) ERROR :: string where "ERROR \<equiv> ''error''"
abbreviation (input) WARNING :: string where "WARNING \<equiv> ''warning''"
abbreviation (input) INFO :: string where "INFO \<equiv> ''info''"
abbreviation (input) DEBUG :: string where "DEBUG \<equiv> ''debug''"

text \<open>
  The line \<^verbatim>\<open>{"level":"%s", "msg": "%s:%d %s"}\n\<close> that \<^verbatim>\<open>write_log_with_info\<close>
  prints; \<open>message\<close> is the \<^verbatim>\<open>char message[1024]\<close> that \<^verbatim>\<open>vsnprintf\<close> filled.
\<close>

definition log_line :: "string \<Rightarrow> string \<Rightarrow> int \<Rightarrow> string \<Rightarrow> string" where
  "log_line level function line message =
     ''{'' @ [dquote] @ ''level'' @ [dquote] @ '':'' @ [dquote] @ level @ [dquote] @
     '', '' @ [dquote] @ ''msg'' @ [dquote] @ '': '' @ [dquote] @
     function @ '':'' @ dec line @ '' '' @ take 1023 message @ [dquote] @ ''}'' @ [newline]"

definition write_log_with_info ::
  "kernel \<Rightarrow> string option \<Rightarrow> string \<Rightarrow> int \<Rightarrow> string \<Rightarrow> unit prog" where
  "write_log_with_info K level function line message =
     bnd get_logfd (\<lambda>fd.
       case level of
         None \<Rightarrow> ret ()
       | Some lv \<Rightarrow>
           if fd < 0 then ret ()
           else bnd (sys K (Sys_dprintf fd (log_line lv function line message)))
                  (\<lambda>_. ret ()))"

text \<open>
  The macro \<^verbatim>\<open>bail(fmt, ...)\<close>: a log line at level \<^verbatim>\<open>fatal\<close> with the message
  \<^verbatim>\<open>"nsenter: " fmt ": %m"\<close>, then \<^verbatim>\<open>exit(1)\<close>.  The function name and the line are
  those of the place where the macro stands.
\<close>

definition bail_message :: "string \<Rightarrow> errno \<Rightarrow> string" where
  "bail_message msg e = ''nsenter: '' @ msg @ '': '' @ strerror e"

definition bail :: "kernel \<Rightarrow> string \<Rightarrow> int \<Rightarrow> string \<Rightarrow> 'a prog" where
  "bail K function line msg =
     bnd get_errno (\<lambda>e.
     bnd (write_log_with_info K (Some FATAL) function line (bail_message msg e))
       (\<lambda>_. halt_with (Exit 1)))"

section \<open>Writing the files under \<^verbatim>\<open>/proc\<close>\<close>

abbreviation (input) O_RDONLY :: int where "O_RDONLY \<equiv> 0"
abbreviation (input) O_RDWR :: int where "O_RDWR \<equiv> 2"
abbreviation (input) PATH_MAX :: nat where "PATH_MAX \<equiv> 4096"

text \<open>A \<^verbatim>\<open>ssize_t\<close> or \<^verbatim>\<open>int\<close> converted to \<^verbatim>\<open>size_t\<close> (64 bits).\<close>

definition to_size_t :: "int \<Rightarrow> nat" where
  "to_size_t i = nat (i mod 2 ^ 64)"

text \<open>
  \<^verbatim>\<open>write_file(data, data_len, pathfmt, ...)\<close>; \<open>path\<close> is the formatted path, cut to
  the \<^verbatim>\<open>PATH_MAX\<close> bytes of the buffer.
\<close>

definition write_file :: "kernel \<Rightarrow> string \<Rightarrow> nat \<Rightarrow> string \<Rightarrow> int prog" where
  "write_file K data data_len path =
     bnd (sys K (Sys_open (take (PATH_MAX - 1) path) O_RDWR)) (\<lambda>r.
       let fd = rv r in
       if fd < 0 then ret (- 1)
       else
         bnd (sys K (Sys_write fd data data_len)) (\<lambda>w.
           let len = rv w in
           bnd (sys K (Sys_close fd)) (\<lambda>_.
             ret (if to_size_t len \<noteq> data_len then - 1 else 0))))"

datatype policy_t = SETGROUPS_DEFAULT | SETGROUPS_ALLOW | SETGROUPS_DENY

definition setgroups_path :: "int \<Rightarrow> string" where
  "setgroups_path pid = ''/proc/'' @ dec pid @ ''/setgroups''"

definition uid_map_path :: "int \<Rightarrow> string" where
  "uid_map_path pid = ''/proc/'' @ dec pid @ ''/uid_map''"

definition gid_map_path :: "int \<Rightarrow> string" where
  "gid_map_path pid = ''/proc/'' @ dec pid @ ''/gid_map''"

text \<open>
  The \<^verbatim>\<open>switch\<close> of \<^verbatim>\<open>update_setgroups\<close>: the policy to write, \<open>None\<close> where the
  function returns at once.
\<close>

definition policy_text :: "policy_t \<Rightarrow> string option" where
  "policy_text setgroup =
     (case setgroup of
        SETGROUPS_ALLOW \<Rightarrow> Some ''allow''
      | SETGROUPS_DENY \<Rightarrow> Some ''deny''
      | SETGROUPS_DEFAULT \<Rightarrow> None)"

definition update_setgroups :: "kernel \<Rightarrow> int \<Rightarrow> policy_t \<Rightarrow> unit prog" where
  "update_setgroups K pid setgroup =
     (case policy_text setgroup of
        None \<Rightarrow> ret ()
      | Some policy \<Rightarrow>
          bnd (write_file K policy (length policy) (setgroups_path pid)) (\<lambda>r.
            if r < 0 then
              bnd get_errno (\<lambda>e.
                if e \<noteq> ENOENT then
                  bail K ''update_setgroups'' 243
                    (''failed to write '' @ [squote] @ policy @ [squote] @ '' to /proc/''
                       @ dec pid @ ''/setgroups'')
                else ret ())
            else ret ()))"

subsection \<open>The mapping tool\<close>

abbreviation (input) MAX_ARGV :: nat where "MAX_ARGV \<equiv> 20"

text \<open>
  The loop of \<^verbatim>\<open>try_mapping_tool\<close> that cuts the map into arguments.  \<open>argc\<close> is the
  number of slots of \<^verbatim>\<open>argv\<close> assigned so far and \<open>argv\<close> holds exactly those; the
  slots from \<open>argc\<close> on are what the stack held.  \<^verbatim>\<open>strpbrk(map, "\n ")\<close> finds the
  first newline or blank, \<^verbatim>\<open>strspn(next, "\n ")\<close> counts the ones that follow.
\<close>

definition map_delim :: "char \<Rightarrow> bool" where
  "map_delim c = (c = newline \<or> c = CHR '' '')"

function mapping_argv :: "nat \<Rightarrow> string \<Rightarrow> arg list \<Rightarrow> arg list" where
  "mapping_argv argc mp argv =
     (if argc < MAX_ARGV then
        (if mp = [] then argv @ [ArgNull]
         else if \<not> (\<exists>c \<in> set mp. map_delim c) then argv @ [Arg mp]
         else mapping_argv (argc + 1)
                (dropWhile map_delim (drop 1 (dropWhile (\<lambda>c. \<not> map_delim c) mp)))
                (argv @ [Arg (takeWhile (\<lambda>c. \<not> map_delim c) mp)]))
      else argv)"
  by pat_completeness auto
termination
  by (relation "measure (\<lambda>(argc, mp, argv). MAX_ARGV - argc)") auto

declare mapping_argv.simps [simp del]

text \<open>The macros of \<^verbatim>\<open>sys/wait.h\<close>.\<close>

definition WIFEXITED :: "int \<Rightarrow> bool" where
  "WIFEXITED status = (status AND 0x7f = 0)"

definition WIFSIGNALED :: "int \<Rightarrow> bool" where
  "WIFSIGNALED status = (1 \<le> status AND 0x7f \<and> status AND 0x7f \<le> 126)"

definition WEXITSTATUS :: "int \<Rightarrow> int" where
  "WEXITSTATUS status = drop_bit 8 (status AND 0xff00)"

text \<open>
  The \<^verbatim>\<open>while (true)\<close> around \<^verbatim>\<open>waitpid\<close>.  It goes round again on \<^verbatim>\<open>EINTR\<close> and on
  a status that is neither an exit nor a signal, so it has no bound of its own: \<open>fuel\<close>
  bounds the rounds and running out of it is \<open>Hang\<close>.
\<close>

fun waitpid_loop :: "nat \<Rightarrow> kernel \<Rightarrow> int \<Rightarrow> int prog" where
  "waitpid_loop 0 K child = halt_with Hang"
| "waitpid_loop (Suc n) K child =
     bnd (sys K (Sys_waitpid child)) (\<lambda>r.
       case r of
         Fail e \<Rightarrow>
           bnd get_errno (\<lambda>e.
             if e = EINTR then waitpid_loop n K child
             else bail K ''try_mapping_tool'' 311 ''failed to waitpid'')
       | _ \<Rightarrow>
           let status = rv r in
           if WIFEXITED status \<or> WIFSIGNALED status then ret (WEXITSTATUS status)
           else waitpid_loop n K child)"

definition try_mapping_tool ::
  "nat \<Rightarrow> kernel \<Rightarrow> string option \<Rightarrow> int \<Rightarrow> string \<Rightarrow> nat \<Rightarrow> int prog" where
  "try_mapping_tool fuel K app pid mp map_len =
     (case app of
        None \<Rightarrow> bail K ''try_mapping_tool'' 266 ''mapping tool not present''
      | Some a \<Rightarrow>
          bnd (sys K Sys_fork) (\<lambda>r.
            let child = rv r in
            if child < 0 then bail K ''try_mapping_tool'' 270 ''failed to fork''
            else if child = 0 then
              bnd (sys K (Sys_execve a (mapping_argv 2 mp [Arg a, Arg (dec pid)]) [ArgNull]))
                (\<lambda>x. case x of
                   Fail e \<Rightarrow> bail K ''try_mapping_tool'' 303 ''failed to execv''
                 | _ \<Rightarrow> halt_with Execd)
            else waitpid_loop fuel K child))"

definition update_uidmap ::
  "nat \<Rightarrow> kernel \<Rightarrow> string option \<Rightarrow> int \<Rightarrow> string option \<Rightarrow> nat \<Rightarrow> unit prog" where
  "update_uidmap fuel K path pid mp map_len =
     (case mp of
        None \<Rightarrow> ret ()
      | Some m \<Rightarrow>
          if map_len \<le> 0 then ret ()
          else
            bnd (write_file K m map_len (uid_map_path pid)) (\<lambda>r.
              if r < 0 then
                bnd get_errno (\<lambda>e.
                  if e \<noteq> EPERM then
                    bail K ''update_uidmap'' 328
                      (''failed to update /proc/'' @ dec pid @ ''/uid_map'')
                  else
                    bnd (try_mapping_tool fuel K path pid m map_len) (\<lambda>t.
                      if t \<noteq> 0 then
                        bail K ''update_uidmap'' 330
                          (''failed to use newuid map on '' @ dec pid)
                      else ret ()))
              else ret ()))"

definition update_gidmap ::
  "nat \<Rightarrow> kernel \<Rightarrow> string option \<Rightarrow> int \<Rightarrow> string option \<Rightarrow> nat \<Rightarrow> unit prog" where
  "update_gidmap fuel K path pid mp map_len =
     (case mp of
        None \<Rightarrow> ret ()
      | Some m \<Rightarrow>
          if map_len \<le> 0 then ret ()
          else
            bnd (write_file K m map_len (gid_map_path pid)) (\<lambda>r.
              if r < 0 then
                bnd get_errno (\<lambda>e.
                  if e \<noteq> EPERM then
                    bail K ''update_gidmap'' 341
                      (''failed to update /proc/'' @ dec pid @ ''/gid_map'')
                  else
                    bnd (try_mapping_tool fuel K path pid m map_len) (\<lambda>t.
                      if t \<noteq> 0 then
                        bail K ''update_gidmap'' 343
                          (''failed to use newgid map on '' @ dec pid)
                      else ret ()))
              else ret ()))"

definition update_oom_score_adj :: "kernel \<Rightarrow> string option \<Rightarrow> nat \<Rightarrow> unit prog" where
  "update_oom_score_adj K data len =
     (case data of
        None \<Rightarrow> ret ()
      | Some d \<Rightarrow>
          if len \<le> 0 then ret ()
          else
            bnd (write_file K d len ''/proc/self/oom_score_adj'') (\<lambda>r.
              if r < 0 then
                bail K ''update_oom_score_adj'' 353
                  ''failed to update /proc/self/oom_score_adj''
              else ret ()))"

section \<open>The configuration\<close>

text \<open>
  \<^verbatim>\<open>struct nlconfig_t\<close>.  A \<^verbatim>\<open>char *\<close> field is the C string it points to, \<open>None\<close>
  when the pointer is \<^verbatim>\<open>NULL\<close>; the length fields are kept beside them as in the
  source.
\<close>

record nlconfig_t =
  data :: "string option"
  cloneflags :: "32 word"
  oom_score_adj :: "string option"
  oom_score_adj_len :: nat
  uidmap :: "string option"
  uidmap_len :: nat
  gidmap :: "string option"
  gidmap_len :: nat
  namespaces :: "string option"
  namespaces_len :: nat
  is_setgroup :: "8 word"
  is_rootless_euid :: "8 word"
  uidmappath :: "string option"
  uidmappath_len :: nat
  gidmappath :: "string option"
  gidmappath_len :: nat
  prep_rootfs :: "8 word"
  make_parent_priv :: "8 word"
  rootfs_prop :: "32 word"
  rootfs :: "string option"
  rootfs_len :: nat
  parent_mount :: "string option"
  parent_mount_len :: nat
  shiftfs_mounts :: "string option"
  shiftfs_mounts_len :: nat

text \<open>\<^verbatim>\<open>struct nlconfig_t config = { 0 }\<close>.\<close>

definition config_zero :: nlconfig_t where
  "config_zero =
     \<lparr>data = None, cloneflags = 0, oom_score_adj = None, oom_score_adj_len = 0,
      uidmap = None, uidmap_len = 0, gidmap = None, gidmap_len = 0,
      namespaces = None, namespaces_len = 0, is_setgroup = 0, is_rootless_euid = 0,
      uidmappath = None, uidmappath_len = 0, gidmappath = None, gidmappath_len = 0,
      prep_rootfs = 0, make_parent_priv = 0, rootfs_prop = 0,
      rootfs = None, rootfs_len = 0, parent_mount = None, parent_mount_len = 0,
      shiftfs_mounts = None, shiftfs_mounts_len = 0\<rparr>"

text \<open>
  Modelled from the spec: \<^verbatim>\<open>namespace.h\<close> is not among the sources.  It gives the
  \<^verbatim>\<open>CLONE_NEW*\<close> flags of section 3, one bit each; the values are those of the Linux
  headers it falls back to.
\<close>

definition CLONE_NEWNS :: "32 word" where "CLONE_NEWNS = 0x00020000"
definition CLONE_NEWCGROUP :: "32 word" where "CLONE_NEWCGROUP = 0x02000000"
definition CLONE_NEWUTS :: "32 word" where "CLONE_NEWUTS = 0x04000000"
definition CLONE_NEWIPC :: "32 word" where "CLONE_NEWIPC = 0x08000000"
definition CLONE_NEWUSER :: "32 word" where "CLONE_NEWUSER = 0x10000000"
definition CLONE_NEWPID :: "32 word" where "CLONE_NEWPID = 0x20000000"
definition CLONE_NEWNET :: "32 word" where "CLONE_NEWNET = 0x40000000"

definition nsflag :: "string \<Rightarrow> 32 word" where
  "nsflag name =
     (if name = ''cgroup'' then CLONE_NEWCGROUP
      else if name = ''ipc'' then CLONE_NEWIPC
      else if name = ''mnt'' then CLONE_NEWNS
      else if name = ''net'' then CLONE_NEWNET
      else if name = ''pid'' then CLONE_NEWPID
      else if name = ''user'' then CLONE_NEWUSER
      else if name = ''uts'' then CLONE_NEWUTS
      else 0)"

section \<open>The netlink message\<close>

abbreviation (input) INIT_MSG :: nat where "INIT_MSG \<equiv> 62000"
abbreviation (input) CLONE_FLAGS_ATTR :: nat where "CLONE_FLAGS_ATTR \<equiv> 27281"
abbreviation (input) NS_PATHS_ATTR :: nat where "NS_PATHS_ATTR \<equiv> 27282"
abbreviation (input) UIDMAP_ATTR :: nat where "UIDMAP_ATTR \<equiv> 27283"
abbreviation (input) GIDMAP_ATTR :: nat where "GIDMAP_ATTR \<equiv> 27284"
abbreviation (input) SETGROUP_ATTR :: nat where "SETGROUP_ATTR \<equiv> 27285"
abbreviation (input) OOM_SCORE_ADJ_ATTR :: nat where "OOM_SCORE_ADJ_ATTR \<equiv> 27286"
abbreviation (input) ROOTLESS_EUID_ATTR :: nat where "ROOTLESS_EUID_ATTR \<equiv> 27287"
abbreviation (input) UIDMAPPATH_ATTR :: nat where "UIDMAPPATH_ATTR \<equiv> 27288"
abbreviation (input) GIDMAPPATH_ATTR :: nat where "GIDMAPPATH_ATTR \<equiv> 27289"
abbreviation (input) PREP_ROOTFS_ATTR :: nat where "PREP_ROOTFS_ATTR \<equiv> 27290"
abbreviation (input) MAKE_PARENT_PRIV_ATTR :: nat where "MAKE_PARENT_PRIV_ATTR \<equiv> 27291"
abbreviation (input) ROOTFS_PROP_ATTR :: nat where "ROOTFS_PROP_ATTR \<equiv> 27292"
abbreviation (input) ROOTFS_ATTR :: nat where "ROOTFS_ATTR \<equiv> 27293"
abbreviation (input) PARENT_MOUNT_ATTR :: nat where "PARENT_MOUNT_ATTR \<equiv> 27294"
abbreviation (input) SHIFTFS_MOUNTS_ATTR :: nat where "SHIFTFS_MOUNTS_ATTR \<equiv> 27295"

text \<open>
  The macros of \<^verbatim>\<open>linux/netlink.h\<close>: the header of a message is 16 bytes, that of
  an attribute 4, and both are aligned to 4.  The machine is little-endian.
\<close>

abbreviation (input) NLMSG_HDRLEN :: nat where "NLMSG_HDRLEN \<equiv> 16"
abbreviation (input) NLMSG_ERROR :: nat where "NLMSG_ERROR \<equiv> 2"
abbreviation (input) NLA_HDRLEN :: nat where "NLA_HDRLEN \<equiv> 4"

definition le_nat :: "string \<Rightarrow> nat" where
  "le_nat bs = foldr (\<lambda>c n. of_char c + 256 * n) bs 0"

text \<open>\<^verbatim>\<open>NLA_ALIGN(len)\<close> on a \<^verbatim>\<open>size_t\<close>: \<^verbatim>\<open>(len + 3) & ~3\<close>, in 64 bits.\<close>

definition NLA_ALIGN :: "nat \<Rightarrow> nat" where
  "NLA_ALIGN len = ((len + 3) mod 2 ^ 64) div 4 * 4"

text \<open>\<^verbatim>\<open>NLMSG_PAYLOAD(&hdr, 0)\<close>: \<^verbatim>\<open>nlmsg_len - 16\<close> in unsigned 32-bit arithmetic.\<close>

definition NLMSG_PAYLOAD :: "32 word \<Rightarrow> nat" where
  "NLMSG_PAYLOAD nlmsg_len = unat (nlmsg_len - 16)"

text \<open>
  \<^verbatim>\<open>readint32\<close> and \<^verbatim>\<open>readint8\<close> take the bytes at the pointer; \<open>buf\<close> is the rest of
  the payload from there.
\<close>

definition readint32 :: "string \<Rightarrow> 32 word" where
  "readint32 buf = word_of_nat (le_nat (take 4 buf))"

definition readint8 :: "string \<Rightarrow> 8 word" where
  "readint8 buf = word_of_nat (le_nat (take 1 buf))"

text \<open>The C string at a pointer into the payload.\<close>

definition cstr :: "string \<Rightarrow> string" where
  "cstr buf = takeWhile (\<lambda>c. c \<noteq> NUL) buf"

datatype attr_error = Unknown_type nat | Overread

text \<open>
  The \<^verbatim>\<open>switch (nlattr->nla_type)\<close> of \<^verbatim>\<open>nl_parse\<close>, with \<open>buf\<close> the payload from
  \<^verbatim>\<open>current\<close> on.  \<^verbatim>\<open>readint32\<close> and \<^verbatim>\<open>readint8\<close> have no check of their own: where
  they would read behind the allocation the result is \<open>Overread\<close>.
\<close>

definition nl_attr ::
  "nat \<Rightarrow> nat \<Rightarrow> string \<Rightarrow> nlconfig_t \<Rightarrow> attr_error + nlconfig_t" where
  "nl_attr nla_type payload_len buf config =
     (if nla_type = CLONE_FLAGS_ATTR then
        (if length buf < 4 then Inl Overread else Inr (config\<lparr>cloneflags := readint32 buf\<rparr>))
      else if nla_type = ROOTLESS_EUID_ATTR then
        (if length buf < 1 then Inl Overread
         else Inr (config\<lparr>is_rootless_euid := readint8 buf\<rparr>))
      else if nla_type = OOM_SCORE_ADJ_ATTR then
        Inr (config\<lparr>oom_score_adj := Some (cstr buf), oom_score_adj_len := payload_len\<rparr>)
      else if nla_type = NS_PATHS_ATTR then
        Inr (config\<lparr>namespaces := Some (cstr buf), namespaces_len := payload_len\<rparr>)
      else if nla_type = UIDMAP_ATTR then
        Inr (config\<lparr>uidmap := Some (cstr buf), uidmap_len := payload_len\<rparr>)
      else if nla_type = GIDMAP_ATTR then
        Inr (config\<lparr>gidmap := Some (cstr buf), gidmap_len := payload_len\<rparr>)
      else if nla_type = UIDMAPPATH_ATTR then
        Inr (config\<lparr>uidmappath := Some (cstr buf), uidmappath_len := payload_len\<rparr>)
      else if nla_type = GIDMAPPATH_ATTR then
        Inr (config\<lparr>gidmappath := Some (cstr buf), gidmappath_len := payload_len\<rparr>)
      else if nla_type = SETGROUP_ATTR then
        (if length buf < 1 then Inl Overread else Inr (config\<lparr>is_setgroup := readint8 buf\<rparr>))
      else if nla_type = PREP_ROOTFS_ATTR then
        (if length buf < 1 then Inl Overread else Inr (config\<lparr>prep_rootfs := readint8 buf\<rparr>))
      else if nla_type = MAKE_PARENT_PRIV_ATTR then
        (if length buf < 1 then Inl Overread
         else Inr (config\<lparr>make_parent_priv := readint8 buf\<rparr>))
      else if nla_type = ROOTFS_PROP_ATTR then
        (if length buf < 4 then Inl Overread else Inr (config\<lparr>rootfs_prop := readint32 buf\<rparr>))
      else if nla_type = ROOTFS_ATTR then
        Inr (config\<lparr>rootfs := Some (cstr buf), rootfs_len := payload_len\<rparr>)
      else if nla_type = PARENT_MOUNT_ATTR then
        Inr (config\<lparr>parent_mount := Some (cstr buf), parent_mount_len := payload_len\<rparr>)
      else if nla_type = SHIFTFS_MOUNTS_ATTR then
        Inr (config\<lparr>shiftfs_mounts := Some (cstr buf), shiftfs_mounts_len := payload_len\<rparr>)
      else Inl (Unknown_type nla_type))"

text \<open>
  The loop \<^verbatim>\<open>while (current < data + size)\<close>; \<open>current\<close> is the offset into \<open>payload\<close>,
  whose length is \<^verbatim>\<open>size\<close>.  Reading the four bytes of a \<^verbatim>\<open>struct nlattr\<close> that do
  not lie inside the allocation, and moving \<^verbatim>\<open>current\<close> behind its end, is undefined
  in C.
\<close>

function nl_parse_loop :: "kernel \<Rightarrow> string \<Rightarrow> nat \<Rightarrow> nlconfig_t \<Rightarrow> nlconfig_t prog" where
  "nl_parse_loop K payload current config =
     (if current < length payload then
        (if length payload < current + NLA_HDRLEN then halt_with Undefined
         else
           (case nl_attr (le_nat (take 2 (drop (current + 2) payload)))
                   (to_size_t (int (le_nat (take 2 (drop current payload))) - int NLA_HDRLEN))
                   (drop (current + NLA_HDRLEN) payload) config of
              Inl (Unknown_type ty) \<Rightarrow>
                bail K ''nl_parse'' 541 (''unknown netlink message type '' @ dec (int ty))
            | Inl Overread \<Rightarrow> halt_with Undefined
            | Inr config' \<Rightarrow>
                if length payload < current + NLA_HDRLEN + NLA_ALIGN
                     (to_size_t (int (le_nat (take 2 (drop current payload))) - int NLA_HDRLEN))
                then halt_with Undefined
                else nl_parse_loop K payload
                       (current + NLA_HDRLEN + NLA_ALIGN
                          (to_size_t (int (le_nat (take 2 (drop current payload)))
                             - int NLA_HDRLEN)))
                       config'))
      else ret config)"
  by pat_completeness auto
termination
  by (relation "measure (\<lambda>(K, payload, current, config). length payload - current)") auto

declare nl_parse_loop.simps [simp del]

text \<open>
  \<^verbatim>\<open>nl_parse(fd, config)\<close>.  \<^verbatim>\<open>malloc\<close> answers \<open>Ok p\<close> with the address \<open>p\<close>, which is
  \<^verbatim>\<open>NULL\<close> when \<open>p = 0\<close>, or fails.
\<close>

definition is_null :: "sysret \<Rightarrow> bool" where
  "is_null r = (case r of Ok p \<Rightarrow> p = 0 | Fail e \<Rightarrow> True | _ \<Rightarrow> False)"

definition bytes_of :: "sysret \<Rightarrow> string" where
  "bytes_of r = (case r of Data bs \<Rightarrow> bs | _ \<Rightarrow> [])"

definition nl_parse :: "kernel \<Rightarrow> int \<Rightarrow> nlconfig_t \<Rightarrow> nlconfig_t prog" where
  "nl_parse K fd config =
     bnd (sys K (Sys_read fd NLMSG_HDRLEN)) (\<lambda>h.
       if to_size_t (rv h) \<noteq> NLMSG_HDRLEN then
         bail K ''nl_parse'' 454
           (''invalid netlink header length '' @ dec_nat (to_size_t (rv h)))
       else
         let hdr = bytes_of h;
             nlmsg_len = (word_of_nat (le_nat (take 4 hdr)) :: 32 word);
             nlmsg_type = le_nat (take 2 (drop 4 hdr))
         in
         if nlmsg_type = NLMSG_ERROR then
           bail K ''nl_parse'' 457 ''failed to read netlink message''
         else if nlmsg_type \<noteq> INIT_MSG then
           bail K ''nl_parse'' 460 (''unexpected msg type '' @ dec (int nlmsg_type))
         else
           let size = NLMSG_PAYLOAD nlmsg_len in
           bnd (sys K (Sys_malloc size)) (\<lambda>m.
             if is_null m then
               bail K ''nl_parse'' 466
                 (''failed to allocate '' @ dec_nat size @ '' bytes of memory for nl_payload'')
             else
               bnd (sys K (Sys_read fd size)) (\<lambda>d.
                 if to_size_t (rv d) \<noteq> size then
                   bail K ''nl_parse'' 470
                     (''failed to read netlink payload, '' @ dec_nat (to_size_t (rv d))
                        @ '' != '' @ dec_nat size)
                 else
                   nl_parse_loop K (bytes_of d) 0 (config\<lparr>data := Some (bytes_of d)\<rparr>))))"

text \<open>
  Modelled from the spec: the serializer of the orchestrator is not among the sources.
  Section 6 gives the wire format: each attribute is a 4-byte header (length, type)
  and its payload, padded to a multiple of 4; the length counts header and payload.
\<close>

definition le16 :: "nat \<Rightarrow> string" where
  "le16 n = [char_of (n mod 256), char_of (n div 256 mod 256)]"

definition nla_encode :: "nat \<times> string \<Rightarrow> string" where
  "nla_encode a =
     le16 (NLA_HDRLEN + length (snd a)) @ le16 (fst a) @ snd a @
     replicate ((4 - length (snd a) mod 4) mod 4) NUL"

definition nla_known :: "nat \<Rightarrow> bool" where
  "nla_known ty = (CLONE_FLAGS_ATTR \<le> ty \<and> ty \<le> SHIFTFS_MOUNTS_ATTR)"

section \<open>Joining namespaces\<close>

text \<open>
  \<^verbatim>\<open>strtok_r\<close> of libc, on the string the scan starts at (the first argument on the
  first call, \<^verbatim>\<open>*saveptr\<close> afterwards): it skips the delimiters, returns the token
  that follows (\<^verbatim>\<open>NULL\<close> when there is none) and leaves \<^verbatim>\<open>*saveptr\<close> behind the
  delimiter that ended it, which it overwrites with NUL.
\<close>

definition strtok_r :: "string \<Rightarrow> string \<Rightarrow> string option \<times> string" where
  "strtok_r s delim =
     (let s1 = dropWhile (\<lambda>c. c \<in> set delim) s in
      if s1 = [] then (None, [])
      else (Some (takeWhile (\<lambda>c. c \<notin> set delim) s1),
            drop 1 (dropWhile (\<lambda>c. c \<notin> set delim) s1)))"

lemma strtok_r_shorter:
  assumes "strtok_r s delim = (Some t, s')"
  shows "length s' < length s"
proof -
  let ?s1 = "dropWhile (\<lambda>c. c \<in> set delim) s"
  let ?s2 = "dropWhile (\<lambda>c. c \<notin> set delim) ?s1"
  from assms have ne: "?s1 \<noteq> []" and s': "s' = drop 1 ?s2"
    by (auto simp: strtok_r_def Let_def split: if_splits)
  have a: "length ?s2 \<le> length ?s1"
    by (rule length_dropWhile_le)
  have b: "length ?s1 \<le> length s"
    by (rule length_dropWhile_le)
  from ne have c: "0 < length ?s1"
    by simp
  have "length s' = length ?s2 - 1"
    unfolding s' by (rule length_drop)
  with a b c show ?thesis
    by linarith
qed

text \<open>The tokens that the first call of \<^verbatim>\<open>strtok_r\<close> and the calls after it return.\<close>

function strtok_all :: "string \<Rightarrow> string \<Rightarrow> string list" where
  "strtok_all s delim =
     (case strtok_r s delim of
        (None, s') \<Rightarrow> []
      | (Some t, s') \<Rightarrow> t # strtok_all s' delim)"
  by pat_completeness auto
termination
proof (relation "measure (\<lambda>(s, delim). length s)")
  show "wf (measure (\<lambda>(s, delim). length s))"
    by simp
next
  fix s delim :: string and r :: "string option" and s' t
  assume "(r, s') = strtok_r s delim" and "r = Some t"
  then have "strtok_r s delim = (Some t, s')"
    by simp
  then have "length s' < length s"
    by (rule strtok_r_shorter)
  then show "((s', delim), (s, delim)) \<in> measure (\<lambda>(s, delim). length s)"
    by simp
qed

declare strtok_all.simps [simp del]

text \<open>
  What the buffer holds, read from its start as a C string, once \<^verbatim>\<open>strtok_r\<close> has
  returned a first token: the delimiters it skipped and that token.
\<close>

definition strtok_head :: "string \<Rightarrow> string \<Rightarrow> string" where
  "strtok_head s delim =
     takeWhile (\<lambda>c. c \<in> set delim) s @
     takeWhile (\<lambda>c. c \<notin> set delim) (dropWhile (\<lambda>c. c \<in> set delim) s)"

text \<open>\<^verbatim>\<open>struct namespace_t\<close> of \<^verbatim>\<open>join_namespaces\<close>; its \<^verbatim>\<open>type\<close> field is never used.\<close>

record namespace_t =
  ns_fd :: int
  ns_flag :: "32 word"
  ns_path :: string

abbreviation (input) sizeof_namespace_t :: nat where "sizeof_namespace_t \<equiv> 8200"

text \<open>The two halves of a token \<^verbatim>\<open>kind:path\<close>, cut at the first colon by \<^verbatim>\<open>strstr\<close>.\<close>

definition ns_kind :: "string \<Rightarrow> string" where
  "ns_kind tok = takeWhile (\<lambda>c. c \<noteq> CHR '':'') tok"

definition ns_file :: "string \<Rightarrow> string" where
  "ns_file tok = drop 1 (dropWhile (\<lambda>c. c \<noteq> CHR '':'') tok)"

text \<open>
  The \<^verbatim>\<open>do ... while\<close> loop of \<^verbatim>\<open>join_namespaces\<close> over the tokens of the list: it
  grows the array by one entry, cuts the token at its first colon and opens the path.
\<close>

fun open_namespaces :: "kernel \<Rightarrow> string list \<Rightarrow> namespace_t list \<Rightarrow> namespace_t list prog" where
  "open_namespaces K [] nss = ret nss"
| "open_namespaces K (tok # toks) nss =
     bnd (sys K (Sys_realloc ((length nss + 1) * sizeof_namespace_t))) (\<lambda>m.
       if is_null m then
         bail K ''join_namespaces'' 581 ''failed to reallocate namespace array''
       else if CHR '':'' \<notin> set tok then
         bail K ''join_namespaces'' 587 (''failed to parse '' @ tok)
       else
         bnd (sys K (Sys_open (ns_file tok) O_RDONLY)) (\<lambda>r.
           if rv r < 0 then
             bail K ''join_namespaces'' 592 (''failed to open '' @ ns_file tok)
           else
             open_namespaces K toks
               (nss @ [\<lparr>ns_fd = rv r,
                        ns_flag = nsflag (ns_kind tok),
                        ns_path = take (PATH_MAX - 1) (ns_file tok)\<rparr>])))"

text \<open>The \<^verbatim>\<open>for\<close> loop of \<^verbatim>\<open>join_namespaces\<close> over the array.\<close>

fun setns_namespaces :: "kernel \<Rightarrow> namespace_t list \<Rightarrow> unit prog" where
  "setns_namespaces K [] = ret ()"
| "setns_namespaces K (n # nss) =
     bnd (sys K (Sys_setns (ns_fd n) (ns_flag n))) (\<lambda>r.
       if rv r < 0 then
         bail K ''join_namespaces'' 611 (''failed to setns to '' @ ns_path n)
       else
         bnd (sys K (Sys_close (ns_fd n))) (\<lambda>_. setns_namespaces K nss))"

definition join_namespaces :: "kernel \<Rightarrow> string \<Rightarrow> unit prog" where
  "join_namespaces K nslist =
     (case strtok_all nslist '','' of
        [] \<Rightarrow> bail K ''join_namespaces'' 566 ''ns paths are empty''
      | tok # toks \<Rightarrow>
          if length tok = 0 \<or> length (strtok_head nslist '','') = 0 then
            bail K ''join_namespaces'' 566 ''ns paths are empty''
          else
            bnd (open_namespaces K (tok # toks) []) (\<lambda>nss.
            bnd (setns_namespaces K nss) (\<lambda>_.
            bnd (sys K Sys_free) (\<lambda>_. ret ()))))"

section \<open>The shiftfs mounts\<close>

abbreviation (input) MS_BIND :: nat where "MS_BIND \<equiv> 4096"
abbreviation (input) MS_REC :: nat where "MS_REC \<equiv> 16384"
abbreviation (input) MS_PRIVATE :: nat where "MS_PRIVATE \<equiv> 262144"

text \<open>
  The \<^verbatim>\<open>do ... while\<close> loop of \<^verbatim>\<open>mount_shiftfs\<close>.  \<^verbatim>\<open>strcmp(mntpath, config->rootfs)\<close>
  with the rootfs \<^verbatim>\<open>NULL\<close> is undefined.
\<close>

fun mount_shiftfs_loop :: "kernel \<Rightarrow> string option \<Rightarrow> string list \<Rightarrow> int prog" where
  "mount_shiftfs_loop K rfs [] = ret 0"
| "mount_shiftfs_loop K rfs (mntpath # rest) =
     (case rfs of
        None \<Rightarrow> halt_with Undefined
      | Some r \<Rightarrow>
          bnd (sys K (if mntpath = r then Sys_mount ''.'' (Some ''.'') ''shiftfs'' 0 []
                      else Sys_mount mntpath (Some mntpath) ''shiftfs'' 0 [])) (\<lambda>x.
            if rv x < 0 then ret (- 1) else mount_shiftfs_loop K rfs rest))"

text \<open>
  \<^verbatim>\<open>mount_shiftfs(config)\<close>.  \<^verbatim>\<open>strtok_r\<close> cuts \<^verbatim>\<open>config->shiftfs_mounts\<close> in place,
  so the function returns the configuration as it leaves it.  With the list \<^verbatim>\<open>NULL\<close>
  the first \<^verbatim>\<open>strtok_r\<close> reads through a \<^verbatim>\<open>NULL\<close> \<^verbatim>\<open>saveptr\<close>.
\<close>

definition mount_shiftfs :: "kernel \<Rightarrow> nlconfig_t \<Rightarrow> (int \<times> nlconfig_t) prog" where
  "mount_shiftfs K config =
     (case shiftfs_mounts config of
        None \<Rightarrow> halt_with Undefined
      | Some mntlist \<Rightarrow>
          (case strtok_all mntlist '','' of
             [] \<Rightarrow> ret (0, config)
           | mntpath # rest \<Rightarrow>
               if length mntpath = 0 \<or> length (strtok_head mntlist '','') = 0 then
                 ret (0, config\<lparr>shiftfs_mounts := Some (strtok_head mntlist '','')\<rparr>)
               else
                 bnd (mount_shiftfs_loop K (rootfs config) (mntpath # rest)) (\<lambda>r.
                   ret (r, config\<lparr>shiftfs_mounts := Some (strtok_head mntlist '','')\<rparr>))))"

section \<open>The three stages\<close>

text \<open>\<^verbatim>\<open>enum sync_t\<close>, the byte of the cgroup handoff and the \<^verbatim>\<open>longjmp\<close> values.\<close>

abbreviation (input) SYNC_USERMAP_PLS :: int where "SYNC_USERMAP_PLS \<equiv> 0x40"
abbreviation (input) SYNC_USERMAP_ACK :: int where "SYNC_USERMAP_ACK \<equiv> 0x41"
abbreviation (input) SYNC_RECVPID_PLS :: int where "SYNC_RECVPID_PLS \<equiv> 0x42"
abbreviation (input) SYNC_RECVPID_ACK :: int where "SYNC_RECVPID_ACK \<equiv> 0x43"
abbreviation (input) SYNC_GRANDCHILD :: int where "SYNC_GRANDCHILD \<equiv> 0x44"
abbreviation (input) SYNC_CHILD_READY :: int where "SYNC_CHILD_READY \<equiv> 0x45"

abbreviation (input) CREATECGROUPNS :: "8 word" where "CREATECGROUPNS \<equiv> 0x80"

abbreviation (input) JUMP_PARENT :: int where "JUMP_PARENT \<equiv> 0x00"
abbreviation (input) JUMP_CHILD :: int where "JUMP_CHILD \<equiv> 0xA0"
abbreviation (input) JUMP_INIT :: int where "JUMP_INIT \<equiv> 0xA1"

abbreviation (input) SIGKILL :: int where "SIGKILL \<equiv> 9"

text \<open>
  \<^verbatim>\<open>read(fd, &s, sizeof(s))\<close> into an \<^verbatim>\<open>int\<close>, an \<^verbatim>\<open>enum sync_t\<close> or a \<^verbatim>\<open>pid_t\<close>, all
  of 4 bytes: the return value and the value the variable holds afterwards.
\<close>

definition le_int32 :: "string \<Rightarrow> int" where
  "le_int32 bs = sint (word_of_nat (le_nat (take 4 bs)) :: 32 word)"

definition read_int :: "kernel \<Rightarrow> int \<Rightarrow> (int \<times> int) prog" where
  "read_int K fd = bnd (sys K (Sys_read fd 4)) (\<lambda>r. ret (rv r, le_int32 (bytes_of r)))"

text \<open>\<^verbatim>\<open>%u\<close> of an \<^verbatim>\<open>enum sync_t\<close>.\<close>

definition dec_u32 :: "int \<Rightarrow> string" where
  "dec_u32 i = dec_nat (nat (i mod 2 ^ 32))"

text \<open>\<^verbatim>\<open>clone_parent(env, jmpval)\<close>: the parent's side, which gets the pid of the child.\<close>

definition clone_parent :: "kernel \<Rightarrow> int \<Rightarrow> int prog" where
  "clone_parent K jmpval = bnd (sys K (Sys_clone_parent jmpval)) (\<lambda>r. ret (rv r))"

subsection \<open>Stage 0: the parent\<close>

text \<open>The body of \<^verbatim>\<open>case SYNC_USERMAP_PLS\<close>.\<close>

definition parent_usermap_pls :: "nat \<Rightarrow> kernel \<Rightarrow> nlconfig_t \<Rightarrow> int \<Rightarrow> unit prog" where
  "parent_usermap_pls fuel K config child =
     bnd (if is_rootless_euid config \<noteq> 0 \<and> is_setgroup config = 0
          then update_setgroups K child SETGROUPS_DENY else ret ()) (\<lambda>_.
     bnd (update_uidmap fuel K (uidmappath config) child (uidmap config) (uidmap_len config))
       (\<lambda>_.
     bnd (update_gidmap fuel K (gidmappath config) child (gidmap config) (gidmap_len config))
       (\<lambda>_.
     bnd get_syncfd (\<lambda>fd.
     bnd (sys K (Sys_write_int fd SYNC_USERMAP_ACK)) (\<lambda>w.
       if to_size_t (rv w) \<noteq> 4 then
         bnd (sys K (Sys_kill child SIGKILL)) (\<lambda>_.
           bail K ''nsexec'' 835 ''failed to sync with child: write(SYNC_USERMAP_ACK)'')
       else ret ())))))"

text \<open>
  The body of \<^verbatim>\<open>case SYNC_RECVPID_PLS\<close>; \<open>child\<close> is the first child on entry and the
  result is the pid that was read, the new value of \<^verbatim>\<open>child\<close>.
\<close>

definition pid_json :: "int \<Rightarrow> int \<Rightarrow> string" where
  "pid_json child first_child =
     ''{'' @ [dquote] @ ''pid'' @ [dquote] @ '': '' @ dec child @ '', '' @
     [dquote] @ ''pid_first'' @ [dquote] @ '': '' @ dec first_child @ ''}'' @ [newline]"

definition parent_recvpid_pls :: "kernel \<Rightarrow> int \<Rightarrow> int \<Rightarrow> int prog" where
  "parent_recvpid_pls K pipenum first_child =
     bnd get_syncfd (\<lambda>fd.
     bnd (read_int K fd) (\<lambda>(n, child).
       if to_size_t n \<noteq> 4 then
         bnd (sys K (Sys_kill first_child SIGKILL)) (\<lambda>_.
           bail K ''nsexec'' 845 ''failed to sync with child: read(childpid)'')
       else
         bnd (sys K (Sys_write_int fd SYNC_RECVPID_ACK)) (\<lambda>w.
           if to_size_t (rv w) \<noteq> 4 then
             bnd (sys K (Sys_kill first_child SIGKILL)) (\<lambda>_.
             bnd (sys K (Sys_kill child SIGKILL)) (\<lambda>_.
               bail K ''nsexec'' 853 ''failed to sync with child: write(SYNC_RECVPID_ACK)''))
           else
             bnd (sys K (Sys_dprintf pipenum (pid_json child first_child))) (\<lambda>d.
               if rv d < 0 then
                 bnd (sys K (Sys_kill child SIGKILL)) (\<lambda>_.
                   bail K ''nsexec'' 865 ''unable to generate JSON for child pid'')
               else ret child))))"

text \<open>
  The loop \<^verbatim>\<open>while (!ready)\<close> of the parent over the values the first child sends.
  It ends when \<^verbatim>\<open>SYNC_CHILD_READY\<close> arrives and has no bound of its own: \<open>fuel\<close> bounds
  the rounds.  The result is \<^verbatim>\<open>child\<close> and \<^verbatim>\<open>first_child\<close> as the loop leaves them.
\<close>

fun parent_sync_loop ::
  "nat \<Rightarrow> kernel \<Rightarrow> nlconfig_t \<Rightarrow> int \<Rightarrow> int \<Rightarrow> int \<Rightarrow> (int \<times> int) prog" where
  "parent_sync_loop 0 K config pipenum child first_child = halt_with Hang"
| "parent_sync_loop (Suc n) K config pipenum child first_child =
     bnd get_syncfd (\<lambda>fd.
     bnd (read_int K fd) (\<lambda>(len, s).
       if to_size_t len \<noteq> 4 then
         bail K ''nsexec'' 811 ''failed to sync with child: next state''
       else if s = SYNC_USERMAP_PLS then
         bnd (parent_usermap_pls (Suc n) K config child) (\<lambda>_.
           parent_sync_loop n K config pipenum child first_child)
       else if s = SYNC_RECVPID_PLS then
         bnd (parent_recvpid_pls K pipenum child) (\<lambda>child'.
           parent_sync_loop n K config pipenum child' child)
       else if s = SYNC_CHILD_READY then ret (child, first_child)
       else bail K ''nsexec'' 873 (''unexpected sync value: '' @ dec_u32 s)))"

text \<open>
  The second loop of the parent: every round either ends the process or sets
  \<^verbatim>\<open>ready\<close>, so it runs once.
\<close>

definition parent_sync_grandchild :: "kernel \<Rightarrow> int \<Rightarrow> unit prog" where
  "parent_sync_grandchild K child =
     bnd get_syncfd (\<lambda>fd.
     bnd (sys K (Sys_write_int fd SYNC_GRANDCHILD)) (\<lambda>w.
       if to_size_t (rv w) \<noteq> 4 then
         bnd (sys K (Sys_kill child SIGKILL)) (\<lambda>_.
           bail K ''nsexec'' 889 ''failed to sync with child: write(SYNC_GRANDCHILD)'')
       else
         bnd (read_int K fd) (\<lambda>(len, s).
           if to_size_t len \<noteq> 4 then
             bail K ''nsexec'' 893 ''failed to sync with child: next state''
           else if s = SYNC_CHILD_READY then ret ()
           else bail K ''nsexec'' 900 (''unexpected sync value: '' @ dec_u32 s))))"

definition stage_parent ::
  "nat \<Rightarrow> kernel \<Rightarrow> nlconfig_t \<Rightarrow> int \<Rightarrow> int \<times> int \<Rightarrow> int \<times> int \<Rightarrow> unit prog" where
  "stage_parent fuel K config pipenum sync_child_pipe sync_grandchild_pipe =
     bnd (sys K (Sys_prctl_set_name ''runc:[0:PARENT]'')) (\<lambda>_.
     bnd (clone_parent K JUMP_CHILD) (\<lambda>child.
       if child < 0 then bail K ''nsexec'' 795 ''unable to fork: child_func''
       else
         bnd (set_syncfd (snd sync_child_pipe)) (\<lambda>_.
         bnd (sys K (Sys_close (fst sync_child_pipe))) (\<lambda>_.
         bnd (parent_sync_loop fuel K config pipenum child (- 1)) (\<lambda>(child', first_child).
         bnd (set_syncfd (snd sync_grandchild_pipe)) (\<lambda>_.
         bnd (sys K (Sys_close (fst sync_grandchild_pipe))) (\<lambda>_.
         bnd (parent_sync_grandchild K child') (\<lambda>_.
           halt_with (Exit 0)))))))))"

subsection \<open>Stage 1: the first child\<close>

definition child_unshare_user :: "kernel \<Rightarrow> nlconfig_t \<Rightarrow> (nlconfig_t \<times> bool) prog" where
  "child_unshare_user K config =
     (if cloneflags config AND CLONE_NEWUSER \<noteq> 0 then
        bnd (sys K (Sys_unshare CLONE_NEWUSER)) (\<lambda>r.
          if rv r < 0 then bail K ''nsexec'' 960 ''failed to unshare user namespace''
          else ret (config\<lparr>cloneflags := cloneflags config AND NOT CLONE_NEWUSER\<rparr>, True))
      else ret (config, False))"

definition child_unshare_mnt :: "kernel \<Rightarrow> nlconfig_t \<Rightarrow> nlconfig_t prog" where
  "child_unshare_mnt K config =
     (if cloneflags config AND CLONE_NEWNS \<noteq> 0 then
        bnd (sys K (Sys_unshare CLONE_NEWNS)) (\<lambda>r.
          if rv r < 0 then bail K ''nsexec'' 972 ''failed to unshare mount namespace''
          else ret (config\<lparr>cloneflags := cloneflags config AND NOT CLONE_NEWNS\<rparr>))
      else ret config)"

text \<open>The three mounts of the rootfs preparation, as calls.\<close>

definition mount_propagation :: "nlconfig_t \<Rightarrow> syscall" where
  "mount_propagation config = Sys_mount [] (Some ''/'') [] (unat (rootfs_prop config)) []"

definition mount_parent_private :: "nlconfig_t \<Rightarrow> syscall" where
  "mount_parent_private config = Sys_mount [] (parent_mount config) [] MS_PRIVATE []"

definition mount_bind_self :: syscall where
  "mount_bind_self = Sys_mount ''.'' (Some ''.'') ''bind'' (MS_BIND OR MS_REC) []"

text \<open>
  The block \<^verbatim>\<open>if (config.prep_rootfs)\<close>: the configuration as \<^verbatim>\<open>mount_shiftfs\<close> leaves
  it, \<^verbatim>\<open>make_parent_priv_done\<close> and \<^verbatim>\<open>shiftfs_mounts_done\<close>.
\<close>

definition child_prep_rootfs :: "kernel \<Rightarrow> nlconfig_t \<Rightarrow> (nlconfig_t \<times> bool \<times> bool) prog" where
  "child_prep_rootfs K config =
     (if prep_rootfs config \<noteq> 0 then
        bnd (sys K (mount_propagation config)) (\<lambda>r.
          if rv r < 0 then bail K ''nsexec'' 990 ''failed to set rootfs mount propagation''
          else
            bnd (if make_parent_priv config \<noteq> 0
                 then bnd (sys K (mount_parent_private config)) (\<lambda>p. ret (rv p = 0))
                 else ret False) (\<lambda>make_parent_priv_done.
              if make_parent_priv config = 0 \<or> make_parent_priv_done then
                bnd (sys K mount_bind_self) (\<lambda>b.
                  if rv b < 0 then
                    bail K ''nsexec'' 1002 ''failed to create bind-to-self mount on rootfs.''
                  else
                    bnd (mount_shiftfs K config) (\<lambda>(x, config').
                      ret (config', make_parent_priv_done, x = 0)))
              else ret (config, make_parent_priv_done, False)))
      else ret (config, False, False))"

text \<open>The block \<^verbatim>\<open>if (new_userns)\<close>.\<close>

definition child_usermap :: "kernel \<Rightarrow> nlconfig_t \<Rightarrow> unit prog" where
  "child_usermap K config =
     bnd (if namespaces config \<noteq> None then
            bnd (sys K (Sys_prctl_set_dumpable 1)) (\<lambda>r.
              if rv r < 0 then bail K ''nsexec'' 1019 ''failed to set process as dumpable''
              else ret ())
          else ret ()) (\<lambda>_.
     bnd get_syncfd (\<lambda>fd.
     bnd (sys K (Sys_write_int fd SYNC_USERMAP_PLS)) (\<lambda>w.
       if to_size_t (rv w) \<noteq> 4 then
         bail K ''nsexec'' 1024 ''failed to sync with parent: write(SYNC_USERMAP_PLS)''
       else
         bnd (read_int K fd) (\<lambda>(len, s).
           if to_size_t len \<noteq> 4 then
             bail K ''nsexec'' 1029 ''failed to sync with parent: read(SYNC_USERMAP_ACK)''
           else if s \<noteq> SYNC_USERMAP_ACK then
             bail K ''nsexec'' 1031
               (''failed to sync with parent: SYNC_USERMAP_ACK: got '' @ dec_u32 s)
           else
             bnd (if namespaces config \<noteq> None then
                    bnd (sys K (Sys_prctl_set_dumpable 0)) (\<lambda>r.
                      if rv r < 0 then
                        bail K ''nsexec'' 1036 ''failed to set process as dumpable''
                      else ret ())
                  else ret ()) (\<lambda>_.
             bnd (sys K (Sys_setresuid 0 0 0)) (\<lambda>r.
               if rv r < 0 then
                 bail K ''nsexec'' 1040 ''failed to become root in user namespace''
               else ret ()))))))"

text \<open>
  The two blocks after the mapping that make up for what the preparation of the
  rootfs left undone.
\<close>

definition child_retry_rootfs :: "kernel \<Rightarrow> nlconfig_t \<Rightarrow> bool \<Rightarrow> bool \<Rightarrow> nlconfig_t prog" where
  "child_retry_rootfs K config make_parent_priv_done shiftfs_mounts_done =
     bnd (if make_parent_priv config \<noteq> 0 \<and> \<not> make_parent_priv_done then
            bnd (sys K (mount_parent_private config)) (\<lambda>p.
              if rv p < 0 then
                bail K ''nsexec'' 1052
                  ''failed to set rootfs parent mount propagation to private''
              else
                bnd (sys K mount_bind_self) (\<lambda>b.
                  if rv b < 0 then
                    bail K ''nsexec'' 1055 ''failed to create bind-to-self mount on rootfs.''
                  else ret ()))
          else ret ()) (\<lambda>_.
       if prep_rootfs config \<noteq> 0 \<and> \<not> shiftfs_mounts_done then
         bnd (mount_shiftfs K config) (\<lambda>(x, config').
           if x < 0 then bail K ''nsexec'' 1060 ''failed to setup shiftfs mounts''
           else ret config')
       else ret config)"

text \<open>From the clone of the grandchild to \<^verbatim>\<open>exit(0)\<close>.\<close>

definition child_clone_init :: "kernel \<Rightarrow> unit prog" where
  "child_clone_init K =
     bnd (clone_parent K JUMP_INIT) (\<lambda>child.
       if child < 0 then bail K ''nsexec'' 1089 ''unable to fork: init_func''
       else
         bnd get_syncfd (\<lambda>fd.
         bnd (sys K (Sys_write_int fd SYNC_RECVPID_PLS)) (\<lambda>w.
           if to_size_t (rv w) \<noteq> 4 then
             bnd (sys K (Sys_kill child SIGKILL)) (\<lambda>_.
               bail K ''nsexec'' 1095 ''failed to sync with parent: write(SYNC_RECVPID_PLS)'')
           else
             bnd (sys K (Sys_write_int fd child)) (\<lambda>w.
               if to_size_t (rv w) \<noteq> 4 then
                 bnd (sys K (Sys_kill child SIGKILL)) (\<lambda>_.
                   bail K ''nsexec'' 1099 ''failed to sync with parent: write(childpid)'')
               else
                 bnd (read_int K fd) (\<lambda>(len, s).
                   if to_size_t len \<noteq> 4 then
                     bnd (sys K (Sys_kill child SIGKILL)) (\<lambda>_.
                       bail K ''nsexec'' 1106
                         ''failed to sync with parent: read(SYNC_RECVPID_ACK)'')
                   else if s \<noteq> SYNC_RECVPID_ACK then
                     bnd (sys K (Sys_kill child SIGKILL)) (\<lambda>_.
                       bail K ''nsexec'' 1110
                         (''failed to sync with parent: SYNC_RECVPID_ACK: got '' @ dec_u32 s))
                   else
                     bnd (sys K (Sys_write_int fd SYNC_CHILD_READY)) (\<lambda>w.
                       if to_size_t (rv w) \<noteq> 4 then
                         bnd (sys K (Sys_kill child SIGKILL)) (\<lambda>_.
                           bail K ''nsexec'' 1116
                             ''failed to sync with parent: write(SYNC_CHILD_READY)'')
                       else halt_with (Exit 0)))))))"

text \<open>
  The first child from \<^verbatim>\<open>unshare(CLONE_NEWUSER)\<close> on, that is, all it does after it
  has joined the namespaces it was given.
\<close>

definition child_after_join :: "kernel \<Rightarrow> nlconfig_t \<Rightarrow> unit prog" where
  "child_after_join K config =
     bnd (child_unshare_user K config) (\<lambda>(config1, new_userns).
     bnd (child_unshare_mnt K config1) (\<lambda>config2.
     bnd (child_prep_rootfs K config2)
       (\<lambda>(config3, make_parent_priv_done, shiftfs_mounts_done).
     bnd (if new_userns then child_usermap K config3 else ret ()) (\<lambda>_.
     bnd (child_retry_rootfs K config3 make_parent_priv_done shiftfs_mounts_done)
       (\<lambda>config4.
     bnd (sys K (Sys_unshare (cloneflags config4 AND NOT CLONE_NEWCGROUP))) (\<lambda>r.
       if rv r < 0 then bail K ''nsexec'' 1076 ''failed to unshare namespaces''
       else child_clone_init K))))))"

definition stage_child ::
  "kernel \<Rightarrow> nlconfig_t \<Rightarrow> int \<times> int \<Rightarrow> unit prog" where
  "stage_child K config sync_child_pipe =
     bnd (set_syncfd (fst sync_child_pipe)) (\<lambda>_.
     bnd (sys K (Sys_close (snd sync_child_pipe))) (\<lambda>_.
     bnd (sys K (Sys_prctl_set_name ''runc:[1:CHILD]'')) (\<lambda>_.
     bnd (case namespaces config of
            None \<Rightarrow> ret ()
          | Some nslist \<Rightarrow> join_namespaces K nslist) (\<lambda>_.
       child_after_join K config))))"

subsection \<open>Stage 2: the grandchild\<close>

text \<open>The block \<^verbatim>\<open>if (config.cloneflags & CLONE_NEWCGROUP)\<close>.\<close>

definition init_cgroupns :: "kernel \<Rightarrow> nlconfig_t \<Rightarrow> int \<Rightarrow> unit prog" where
  "init_cgroupns K config pipenum =
     (if cloneflags config AND CLONE_NEWCGROUP \<noteq> 0 then
        bnd (sys K (Sys_read pipenum 1)) (\<lambda>r.
          if to_size_t (rv r) \<noteq> 1 then
            bail K ''nsexec'' 1189 ''read synchronisation value failed''
          else if readint8 (bytes_of r) = CREATECGROUPNS then
            bnd (sys K (Sys_unshare CLONE_NEWCGROUP)) (\<lambda>u.
              if rv u < 0 then bail K ''nsexec'' 1192 ''failed to unshare cgroup namespace''
              else ret ())
          else bail K ''nsexec'' 1194 ''received unknown synchronisation value'')
      else ret ())"

text \<open>The three lines around \<^verbatim>\<open>update_oom_score_adj\<close> in the grandchild.\<close>

definition init_oom_score_adj :: "kernel \<Rightarrow> nlconfig_t \<Rightarrow> unit prog" where
  "init_oom_score_adj K config =
     bnd (sys K (Sys_prctl_set_dumpable 1)) (\<lambda>r.
       if rv r < 0 then bail K ''nsexec'' 1157 ''failed to set process as dumpable''
       else
         bnd (update_oom_score_adj K (oom_score_adj config) (oom_score_adj_len config)) (\<lambda>_.
         bnd (sys K (Sys_prctl_set_dumpable 0)) (\<lambda>r.
           if rv r < 0 then bail K ''nsexec'' 1162 ''failed to set process as dumpable''
           else ret ())))"

text \<open>
  The grandchild is the one process that leaves \<^verbatim>\<open>nsexec\<close> by \<^verbatim>\<open>return\<close>: its result
  is a value.
\<close>

definition stage_init ::
  "kernel \<Rightarrow> nlconfig_t \<Rightarrow> int \<Rightarrow> int \<times> int \<Rightarrow> int \<times> int \<Rightarrow> unit prog" where
  "stage_init K config pipenum sync_child_pipe sync_grandchild_pipe =
     bnd (set_syncfd (fst sync_grandchild_pipe)) (\<lambda>_.
     bnd (sys K (Sys_close (snd sync_grandchild_pipe))) (\<lambda>_.
     bnd (sys K (Sys_close (fst sync_child_pipe))) (\<lambda>_.
     bnd (sys K (Sys_close (snd sync_child_pipe))) (\<lambda>_.
     bnd (sys K (Sys_prctl_set_name ''runc:[2:INIT]'')) (\<lambda>_.
     bnd (init_oom_score_adj K config) (\<lambda>_.
     bnd get_syncfd (\<lambda>fd.
     bnd (read_int K fd) (\<lambda>(len, s).
       if to_size_t len \<noteq> 4 then
         bail K ''nsexec'' 1166 ''failed to sync with parent: read(SYNC_GRANDCHILD)''
       else if s \<noteq> SYNC_GRANDCHILD then
         bail K ''nsexec'' 1169
           (''failed to sync with parent: SYNC_GRANDCHILD: got '' @ dec_u32 s)
       else
         bnd (sys K Sys_setsid) (\<lambda>r.
           if rv r < 0 then bail K ''nsexec'' 1172 ''setsid failed''
           else
         bnd (sys K (Sys_setuid 0)) (\<lambda>r.
           if rv r < 0 then bail K ''nsexec'' 1175 ''setuid failed''
           else
         bnd (sys K (Sys_setgid 0)) (\<lambda>r.
           if rv r < 0 then bail K ''nsexec'' 1178 ''setgid failed''
           else
         bnd (if is_rootless_euid config = 0 \<and> is_setgroup config \<noteq> 0 then
                bnd (sys K Sys_setgroups_empty) (\<lambda>r.
                  if rv r < 0 then bail K ''nsexec'' 1182 ''setgroups failed'' else ret ())
              else ret ()) (\<lambda>_.
         bnd (init_cgroupns K config pipenum) (\<lambda>_.
         bnd (sys K (Sys_write_int fd SYNC_CHILD_READY)) (\<lambda>w.
           if to_size_t (rv w) \<noteq> 4 then
             bail K ''nsexec'' 1199 ''failed to sync with patent: write(SYNC_CHILD_READY)''
           else
             bnd (sys K (Sys_close (fst sync_grandchild_pipe))) (\<lambda>_.
             bnd (sys K Sys_free) (\<lambda>_. ret ()))))))))))))))))"

subsection \<open>\<^verbatim>\<open>nsexec\<close>\<close>

text \<open>
  \<^verbatim>\<open>strtol(s, &endptr, 10)\<close> of libc: the value, what \<^verbatim>\<open>endptr\<close> points to and
  whether the value left the range of \<^verbatim>\<open>long\<close> (which sets \<^verbatim>\<open>errno\<close> to \<^verbatim>\<open>ERANGE\<close>).
\<close>

definition isspace :: "char \<Rightarrow> bool" where
  "isspace c = (c \<in> set [CHR '' '', CHR 0x09, CHR 0x0A, CHR 0x0B, CHR 0x0C, CHR 0x0D])"

definition isdigit :: "char \<Rightarrow> bool" where
  "isdigit c = (c \<in> set ''0123456789'')"

definition strtol10 :: "string \<Rightarrow> int \<times> string \<times> bool" where
  "strtol10 s =
     (let t = dropWhile isspace s;
          neg = (t \<noteq> [] \<and> hd t = CHR ''-'');
          u = (if t \<noteq> [] \<and> (hd t = CHR ''-'' \<or> hd t = CHR ''+'') then tl t else t);
          ds = takeWhile isdigit u;
          v = foldl (\<lambda>a c. 10 * a + (of_char c - 48)) (0 :: int) ds;
          w = (if neg then - v else v)
      in if ds = [] then (0, s, False)
         else (max (- (2 ^ 63)) (min (2 ^ 63 - 1) w), dropWhile isdigit u,
               w < - (2 ^ 63) \<or> 2 ^ 63 - 1 < w))"

definition long_to_int :: "int \<Rightarrow> int" where
  "long_to_int v = sint (word_of_int v :: 32 word)"

abbreviation (input) ERANGE :: errno where "ERANGE \<equiv> 34"

definition set_errno :: "errno \<Rightarrow> unit prog" where
  "set_errno e = (\<lambda>s. (Val (), s\<lparr>errno := e\<rparr>))"

text \<open>\<^verbatim>\<open>getenv\<close> answers \<open>Data v\<close> with the value, anything else stands for \<^verbatim>\<open>NULL\<close>.\<close>

definition setup_logpipe :: "kernel \<Rightarrow> unit prog" where
  "setup_logpipe K =
     bnd (sys K (Sys_getenv ''_LIBCONTAINER_LOGPIPE'')) (\<lambda>r.
       case r of
         Data logpipe \<Rightarrow>
           if logpipe = [] then ret ()
           else
             (case strtol10 logpipe of (v, endptr, erange) \<Rightarrow>
                bnd (if erange then set_errno ERANGE else ret ()) (\<lambda>_.
                bnd (set_logfd (long_to_int v)) (\<lambda>_.
                  if length endptr = length logpipe \<or> endptr \<noteq> [] then
                    bnd (sys K (Sys_fprintf_stderr
                           (''unable to parse _LIBCONTAINER_LOGPIPE, value: '' @ logpipe
                              @ [newline]))) (\<lambda>_.
                      halt_with (Exit 1))
                  else ret ())))
       | _ \<Rightarrow> ret ())"

definition initpipe :: "kernel \<Rightarrow> int prog" where
  "initpipe K =
     bnd (sys K (Sys_getenv ''_LIBCONTAINER_INITPIPE'')) (\<lambda>r.
       case r of
         Data v \<Rightarrow>
           if v = [] then ret (- 1)
           else
             (case strtol10 v of (pipenum, endptr, erange) \<Rightarrow>
                bnd (if erange then set_errno ERANGE else ret ()) (\<lambda>_.
                  if endptr \<noteq> [] then
                    bail K ''initpipe'' 391 ''unable to parse _LIBCONTAINER_INITPIPE''
                  else ret (long_to_int pipenum)))
       | _ \<Rightarrow> ret (- 1))"

definition fds_of :: "sysret \<Rightarrow> int \<times> int" where
  "fds_of r = (case r of Fds a b \<Rightarrow> (a, b) | _ \<Rightarrow> (0, 0))"

text \<open>
  The \<^verbatim>\<open>switch (setjmp(env))\<close>.  \<^verbatim>\<open>setjmp\<close> returns \<open>0\<close> in the process that entered
  \<^verbatim>\<open>nsexec\<close>; a process made by \<^verbatim>\<open>clone_parent(&env, jmpval)\<close> starts in \<^verbatim>\<open>child_func\<close>,
  whose \<^verbatim>\<open>longjmp\<close> makes \<^verbatim>\<open>setjmp\<close> return \<open>jmpval\<close>, with a copy of the variables of
  its parent.
\<close>

definition nsexec_switch ::
  "nat \<Rightarrow> kernel \<Rightarrow> int \<Rightarrow> nlconfig_t \<Rightarrow> int \<Rightarrow> int \<times> int \<Rightarrow> int \<times> int \<Rightarrow> unit prog" where
  "nsexec_switch fuel K jmpval config pipenum sync_child_pipe sync_grandchild_pipe =
     (if jmpval = JUMP_PARENT then
        stage_parent fuel K config pipenum sync_child_pipe sync_grandchild_pipe
      else if jmpval = JUMP_CHILD then stage_child K config sync_child_pipe
      else if jmpval = JUMP_INIT then
        stage_init K config pipenum sync_child_pipe sync_grandchild_pipe
      else bail K ''nsexec'' 1211 ''unexpected jump value'')"

text \<open>
  What \<^verbatim>\<open>nsexec\<close> does once the configuration is parsed, up to the \<^verbatim>\<open>switch\<close>.
\<close>

definition nsexec_parsed :: "nat \<Rightarrow> kernel \<Rightarrow> int \<Rightarrow> nlconfig_t \<Rightarrow> unit prog" where
  "nsexec_parsed fuel K pipenum config =
     bnd (update_oom_score_adj K (Some ''-999'') 4) (\<lambda>_.
     bnd (if namespaces config \<noteq> None then
            bnd (sys K (Sys_prctl_set_dumpable 0)) (\<lambda>r.
              if rv r < 0 then bail K ''nsexec'' 713 ''failed to set process as non-dumpable''
              else ret ())
          else ret ()) (\<lambda>_.
     bnd (sys K Sys_socketpair) (\<lambda>p1.
       if rv p1 < 0 then
         bail K ''nsexec'' 718 ''failed to setup sync pipe between parent and child''
       else
         bnd (sys K Sys_socketpair) (\<lambda>p2.
           if rv p2 < 0 then
             bail K ''nsexec'' 725 ''failed to setup sync pipe between parent and grandchild''
           else nsexec_switch fuel K JUMP_PARENT config pipenum (fds_of p1) (fds_of p2)))))"

text \<open>
  \<^verbatim>\<open>nsexec\<close>.  \<^verbatim>\<open>ensure_cloned_binary\<close> lives in \<^verbatim>\<open>cloned_binary.c\<close>, which is not among
  the sources: it is a call whose answer is its return value.
\<close>

definition nsexec :: "nat \<Rightarrow> kernel \<Rightarrow> unit prog" where
  "nsexec fuel K =
     bnd (setup_logpipe K) (\<lambda>_.
     bnd (initpipe K) (\<lambda>pipenum.
       if pipenum = - 1 then ret ()
       else
         bnd (sys K Sys_ensure_cloned_binary) (\<lambda>e.
           if rv e < 0 then
             bail K ''nsexec'' 678 ''could not ensure we are a cloned binary''
           else
             bnd (write_log_with_info K (Some DEBUG) ''nsexec'' 680 ''nsexec started'') (\<lambda>_.
             bnd (nl_parse K pipenum config_zero) (\<lambda>config.
               nsexec_parsed fuel K pipenum config)))))"

section \<open>Traces\<close>

text \<open>
  \<open>emits P m\<close>: whatever the kernel answers and whatever state it starts from, a run
  of \<open>m\<close> only appends to the trace, and every event it appends satisfies \<open>P\<close>.
\<close>

definition emits :: "(event \<Rightarrow> bool) \<Rightarrow> 'a prog \<Rightarrow> bool" where
  "emits P m = (\<forall>s r s'. m s = (r, s') \<longrightarrow> (\<exists>es. trace s' = trace s @ es \<and> list_all P es))"

text \<open>A process state to start examples from: nothing done yet, no log pipe.\<close>

definition proc0 :: proc where
  "proc0 = \<lparr>trace = [], errno = 0, logfd = - 1, syncfd = - 1\<rparr>"

text \<open>A kernel that fails every \<^verbatim>\<open>open\<close> with the given error and lets every other call
  return 0.\<close>

definition K_open_fails :: "errno \<Rightarrow> kernel" where
  "K_open_fails e = (\<lambda>h c. case c of Sys_open p f \<Rightarrow> Fail e | _ \<Rightarrow> Ok 0)"

definition is_execve :: "event \<Rightarrow> bool" where
  "is_execve e = (case fst e of Sys_execve a argv envp \<Rightarrow> True | _ \<Rightarrow> False)"

text \<open>Projections of a trace: the opens with their results, the \<^verbatim>\<open>setns\<close> calls.\<close>

definition is_open :: "event \<Rightarrow> bool" where
  "is_open e = (case fst e of Sys_open p f \<Rightarrow> True | _ \<Rightarrow> False)"

definition is_setns :: "event \<Rightarrow> bool" where
  "is_setns e = (case fst e of Sys_setns fd f \<Rightarrow> True | _ \<Rightarrow> False)"

fun opens_of :: "event list \<Rightarrow> (string \<times> int) list" where
  "opens_of [] = []"
| "opens_of (e # es) =
     (case fst e of Sys_open p f \<Rightarrow> (p, rv (snd e)) # opens_of es | _ \<Rightarrow> opens_of es)"

fun setns_of :: "event list \<Rightarrow> (int \<times> 32 word) list" where
  "setns_of [] = []"
| "setns_of (e # es) =
     (case fst e of Sys_setns fd f \<Rightarrow> (fd, f) # setns_of es | _ \<Rightarrow> setns_of es)"

text \<open>\<open>never_after A B es\<close>: in \<open>es\<close> no event of kind \<open>A\<close> comes after one of kind \<open>B\<close>.\<close>

fun never_after :: "('e \<Rightarrow> bool) \<Rightarrow> ('e \<Rightarrow> bool) \<Rightarrow> 'e list \<Rightarrow> bool" where
  "never_after A B [] = True"
| "never_after A B (e # es) =
     ((if B e then list_all (\<lambda>x. \<not> A x) es else True) \<and> never_after A B es)"

text \<open>The array entry \<^verbatim>\<open>join_namespaces\<close> makes of a token and the descriptor of its path.\<close>

definition ns_entry :: "string \<Rightarrow> int \<Rightarrow> namespace_t" where
  "ns_entry tok fd =
     \<lparr>ns_fd = fd, ns_flag = nsflag (ns_kind tok), ns_path = take (PATH_MAX - 1) (ns_file tok)\<rparr>"

text \<open>A kernel under which every call succeeds and returns 3.\<close>

definition K_ok :: kernel where
  "K_ok = (\<lambda>h c. Ok 3)"

section \<open>Rules for traces\<close>

lemma emitsI:
  assumes "\<And>s r s'. m s = (r, s') \<Longrightarrow> \<exists>es. trace s' = trace s @ es \<and> list_all P es"
  shows "emits P m"
  using assms unfolding emits_def by blast

lemma emitsD:
  assumes "emits P m" and "m s = (r, s')"
  shows "\<exists>es. trace s' = trace s @ es \<and> list_all P es"
  using assms unfolding emits_def by blast

lemma emits_emitted:
  assumes "emits P m" and "m s = (r, s')"
  shows "trace s' = trace s @ emitted s s'" and "list_all P (emitted s s')"
  using emitsD [OF assms] by (auto simp: emitted_def)

lemma emits_ret [intro!, simp]: "emits P (ret a)"
  by (simp add: emits_def ret_def)

lemma emits_halt_with [intro!, simp]: "emits P (halt_with h)"
  by (simp add: emits_def halt_with_def)

lemma emits_get_errno [intro!, simp]: "emits P get_errno"
  by (simp add: emits_def get_errno_def)

lemma emits_get_logfd [intro!, simp]: "emits P get_logfd"
  by (simp add: emits_def get_logfd_def)

lemma emits_get_syncfd [intro!, simp]: "emits P get_syncfd"
  by (simp add: emits_def get_syncfd_def)

lemma emits_set_logfd [intro!, simp]: "emits P (set_logfd fd)"
  by (simp add: emits_def set_logfd_def)

lemma emits_set_syncfd [intro!, simp]: "emits P (set_syncfd fd)"
  by (simp add: emits_def set_syncfd_def)

lemma emits_set_errno [intro!, simp]: "emits P (set_errno fd)"
  by (simp add: emits_def set_errno_def)

lemma emits_sys:
  assumes "\<And>r. P (c, r)"
  shows "emits P (sys K c)"
  using assms by (auto simp: emits_def sys_def Let_def)

lemma emits_bnd:
  assumes "emits P m" and "\<And>a. emits P (f a)"
  shows "emits P (bnd m f)"
proof (rule emitsI)
  fix s r s'
  assume run: "bnd m f s = (r, s')"
  obtain r1 s1 where m: "m s = (r1, s1)"
    by (cases "m s")
  from emitsD [OF assms(1) m] obtain es1 where es1: "trace s1 = trace s @ es1" "list_all P es1"
    by blast
  show "\<exists>es. trace s' = trace s @ es \<and> list_all P es"
  proof (cases r1)
    case (Val a)
    with run m have "f a s1 = (r, s')"
      by (simp add: bnd_def)
    from emitsD [OF assms(2) this] obtain es2 where "trace s' = trace s1 @ es2" "list_all P es2"
      by blast
    with es1 have "trace s' = trace s @ (es1 @ es2) \<and> list_all P (es1 @ es2)"
      by simp
    then show ?thesis
      by blast
  next
    case (Stop h)
    with run m have "s' = s1"
      by (simp add: bnd_def)
    with es1 show ?thesis
      by blast
  qed
qed

lemma emits_mono:
  assumes "emits P m" and "\<And>e. P e \<Longrightarrow> Q e"
  shows "emits Q m"
proof (rule emitsI)
  fix s r s'
  assume "m s = (r, s')"
  from emitsD [OF assms(1) this] obtain es where "trace s' = trace s @ es" "list_all P es"
    by blast
  moreover from this(2) assms(2) have "list_all Q es"
    by (simp add: list_all_iff)
  ultimately show "\<exists>es. trace s' = trace s @ es \<and> list_all Q es"
    by blast
qed

lemma emits_if:
  assumes "c \<Longrightarrow> emits P a" and "\<not> c \<Longrightarrow> emits P b"
  shows "emits P (if c then a else b)"
  using assms by simp

lemma emits_write_log_with_info:
  assumes "\<And>fd t r. P (Sys_dprintf fd t, r)"
  shows "emits P (write_log_with_info K level function line message)"
  unfolding write_log_with_info_def
  by (auto intro!: emits_bnd emits_sys assms split: option.split)

lemma emits_bail:
  assumes "\<And>fd t r. P (Sys_dprintf fd t, r)"
  shows "emits P (bail K function line msg)"
  unfolding bail_def
  by (intro emits_bnd emits_write_log_with_info assms emits_get_errno emits_halt_with)

lemma emits_write_file:
  assumes "\<And>r. P (Sys_open (take (PATH_MAX - 1) path) O_RDWR, r)"
    and "\<And>fd r. P (Sys_write fd d n, r)"
    and "\<And>fd r. P (Sys_close fd, r)"
  shows "emits P (write_file K d n path)"
  unfolding write_file_def Let_def
  by (intro emits_bnd emits_sys emits_if emits_ret assms)

lemma bail_run:
  "bail K function line msg s =
     (Stop (Exit 1),
      if logfd s < 0 then s
      else s\<lparr>trace := trace s @
                [(Sys_dprintf (logfd s) (log_line FATAL function line (bail_message msg (errno s))),
                  K (trace s)
                    (Sys_dprintf (logfd s)
                       (log_line FATAL function line (bail_message msg (errno s)))))],
              errno := (case K (trace s)
                          (Sys_dprintf (logfd s)
                             (log_line FATAL function line (bail_message msg (errno s)))) of
                          Fail e \<Rightarrow> e | _ \<Rightarrow> errno s)\<rparr>)"
  by (simp add: bail_def bnd_def get_errno_def get_logfd_def write_log_with_info_def
      halt_with_def ret_def sys_def Let_def)

lemma bail_exit: "fst (bail K function line msg s) = Stop (Exit 1)"
  by (simp add: bail_run)

lemma write_file_returns: "\<exists>r s'. write_file K d n path s = (Val r, s')"
  by (simp add: write_file_def bnd_def sys_def Let_def ret_def)

lemma write_file_open_fails:
  "write_file (K_open_fails e) d n path s =
     (Val (- 1), s\<lparr>trace := trace s @ [(Sys_open (take (PATH_MAX - 1) path) O_RDWR, Fail e)],
                    errno := e\<rparr>)"
  by (simp add: write_file_def bnd_def sys_def Let_def ret_def K_open_fails_def rv_def)

lemma emitted_append [simp]:
  "trace s' = trace s @ es \<Longrightarrow> emitted s s' = es"
  by (simp add: emitted_def)

lemma emitted_self [simp]: "emitted s s = []"
  by (simp add: emitted_def)

lemma uidmap_no_tool:
  assumes "0 < map_len"
    and "write_file K m map_len (uid_map_path pid) s = (Val r, s')"
    and "r < 0" and "errno s' = EPERM"
  shows "update_uidmap fuel K None pid (Some m) map_len s =
           bail K ''try_mapping_tool'' 266 ''mapping tool not present'' s'"
  using assms
  by (simp add: update_uidmap_def bnd_def get_errno_def try_mapping_tool_def bail_run)

lemma gidmap_no_tool:
  assumes "0 < map_len"
    and "write_file K m map_len (gid_map_path pid) s = (Val r, s')"
    and "r < 0" and "errno s' = EPERM"
  shows "update_gidmap fuel K None pid (Some m) map_len s =
           bail K ''try_mapping_tool'' 266 ''mapping tool not present'' s'"
  using assms
  by (simp add: update_gidmap_def bnd_def get_errno_def try_mapping_tool_def bail_run)

lemma bail_trace:
  "\<exists>es. trace (snd (bail K function line msg s)) = trace s @ es \<and>
        list_all (\<lambda>e. \<not> is_execve e) es"
  by (simp add: bail_run is_execve_def)

lemma write_file_no_execve:
  assumes "write_file K d n path s = (r, s')"
  shows "\<exists>es. trace s' = trace s @ es \<and> list_all (\<lambda>e. \<not> is_execve e) es"
  by (rule emitsD [OF emits_write_file assms]) (simp_all add: is_execve_def)

lemma uid_map_path_7: "length (uid_map_path 7) \<le> 4095"
  by (simp add: uid_map_path_def dec_def dec_nat.simps)

lemma gid_map_path_7: "length (gid_map_path 7) \<le> 4095"
  by (simp add: gid_map_path_def dec_def dec_nat.simps)

lemma opens_of_append [simp]: "opens_of (xs @ ys) = opens_of xs @ opens_of ys"
  by (induction xs) (auto split: syscall.splits)

lemma setns_of_append [simp]: "setns_of (xs @ ys) = setns_of xs @ setns_of ys"
  by (induction xs) (auto split: syscall.splits)

lemma setns_of_none: "list_all (\<lambda>e. \<not> is_setns e) es \<Longrightarrow> setns_of es = []"
  by (induction es) (auto simp: is_setns_def split: syscall.splits)

lemma opens_of_none: "list_all (\<lambda>e. \<not> is_open e) es \<Longrightarrow> opens_of es = []"
  by (induction es) (auto simp: is_open_def split: syscall.splits)

lemma never_after_append:
  "never_after A B (xs @ ys) =
     (never_after A B xs \<and> never_after A B ys \<and>
      (list_all (\<lambda>x. \<not> B x) xs \<or> list_all (\<lambda>x. \<not> A x) ys))"
  by (induction xs) auto

lemma never_after_no_A: "list_all (\<lambda>x. \<not> A x) es \<Longrightarrow> never_after A B es"
  by (induction es) auto

lemma never_after_no_B: "list_all (\<lambda>x. \<not> B x) es \<Longrightarrow> never_after A B es"
  by (induction es) auto

lemma bnd_cases:
  assumes "bnd m f s = (r, s')"
  obtains (val) a s1 where "m s = (Val a, s1)" and "f a s1 = (r, s')"
    | (stop) h where "m s = (Stop h, s')" and "r = Stop h"
proof (cases "m s")
  case (Pair r1 s1)
  show ?thesis
  proof (cases r1)
    case (Val a)
    with Pair assms val show ?thesis by (simp add: bnd_def)
  next
    case (Stop h)
    with Pair assms stop show ?thesis by (auto simp: bnd_def)
  qed
qed

lemma ns_entry_simps [simp]:
  "ns_fd (ns_entry tok fd) = fd" "ns_flag (ns_entry tok fd) = nsflag (ns_kind tok)"
  by (simp_all add: ns_entry_def)

lemma open_namespaces_trace:
  "open_namespaces K toks nss s = (r, s') \<Longrightarrow>
     \<exists>es. trace s' = trace s @ es \<and> list_all (\<lambda>e. \<not> is_setns e) es \<and>
          (\<forall>h. r = Stop h \<longrightarrow> h = Exit 1) \<and>
          (\<forall>nss'. r = Val nss' \<longrightarrow>
             nss' = nss @ map2 ns_entry toks (map snd (opens_of es)) \<and>
             map fst (opens_of es) = map ns_file toks \<and>
             list_all (\<lambda>x. 0 \<le> snd x) (opens_of es))"
proof (induction toks arbitrary: nss s)
  case Nil
  then show ?case
    by (auto simp: ret_def)
next
  case (Cons tok toks)
  let ?c1 = "Sys_realloc ((length nss + 1) * sizeof_namespace_t)"
  let ?r1 = "K (trace s) ?c1"
  let ?c2 = "Sys_open (ns_file tok) O_RDONLY"
  let ?r2 = "K (trace s @ [(?c1, ?r1)]) ?c2"
  show ?case
  proof (cases "is_null ?r1 \<or> CHR '':'' \<notin> set tok \<or> rv ?r2 < 0")
    case True
    with Cons.prems have "\<exists>es. trace s' = trace s @ es \<and> list_all (\<lambda>e. \<not> is_setns e) es"
      and "r = Stop (Exit 1)"
      by (auto simp: bnd_def sys_def Let_def bail_run is_setns_def split: if_splits)
    then show ?thesis
      by auto
  next
    case False
    with Cons.prems obtain s2
      where rec: "open_namespaces K toks (nss @ [ns_entry tok (rv ?r2)]) s2 = (r, s')"
        and s2: "trace s2 = trace s @ [(?c1, ?r1), (?c2, ?r2)]"
      by (auto simp: bnd_def sys_def Let_def ns_entry_def)
    from Cons.IH [OF rec] obtain es where es: "trace s' = trace s2 @ es"
      "list_all (\<lambda>e. \<not> is_setns e) es"
      "\<forall>h. r = Stop h \<longrightarrow> h = Exit 1"
      "\<forall>nss'. r = Val nss' \<longrightarrow>
         nss' = (nss @ [ns_entry tok (rv ?r2)]) @ map2 ns_entry toks (map snd (opens_of es)) \<and>
         map fst (opens_of es) = map ns_file toks \<and>
         list_all (\<lambda>x. 0 \<le> snd x) (opens_of es)"
      by blast
    let ?es = "[(?c1, ?r1), (?c2, ?r2)] @ es"
    have "trace s' = trace s @ ?es"
      using es(1) s2 by simp
    moreover have "list_all (\<lambda>e. \<not> is_setns e) ?es"
      using es(2) by (simp add: is_setns_def)
    moreover have "\<forall>nss'. r = Val nss' \<longrightarrow>
             nss' = nss @ map2 ns_entry (tok # toks) (map snd (opens_of ?es)) \<and>
             map fst (opens_of ?es) = map ns_file (tok # toks) \<and>
             list_all (\<lambda>x. 0 \<le> snd x) (opens_of ?es)"
      using es(4) False by simp
    ultimately show ?thesis
      using es(3) by blast
  qed
qed

lemma setns_namespaces_trace:
  "setns_namespaces K nss s = (r, s') \<Longrightarrow>
     \<exists>es. trace s' = trace s @ es \<and> list_all (\<lambda>e. \<not> is_open e) es \<and>
          prefix (setns_of es) (map (\<lambda>n. (ns_fd n, ns_flag n)) nss) \<and>
          (\<forall>h. r = Stop h \<longrightarrow> h = Exit 1) \<and>
          (r = Val () \<longrightarrow> setns_of es = map (\<lambda>n. (ns_fd n, ns_flag n)) nss)"
proof (induction nss arbitrary: s)
  case Nil
  then show ?case
    by (auto simp: ret_def)
next
  case (Cons n nss)
  let ?c1 = "Sys_setns (ns_fd n) (ns_flag n)"
  let ?r1 = "K (trace s) ?c1"
  let ?c2 = "Sys_close (ns_fd n)"
  let ?r2 = "K (trace s @ [(?c1, ?r1)]) ?c2"
  show ?case
  proof (cases "rv ?r1 < 0")
    case True
    with Cons.prems obtain es where "trace s' = trace s @ [(?c1, ?r1)] @ es"
      "list_all (\<lambda>e. \<not> is_setns e \<and> \<not> is_open e) es" "r = Stop (Exit 1)"
      by (auto simp: bnd_def sys_def Let_def bail_run is_setns_def is_open_def split: if_splits)
    then have "trace s' = trace s @ ([(?c1, ?r1)] @ es)"
      "list_all (\<lambda>e. \<not> is_open e) ([(?c1, ?r1)] @ es)"
      "setns_of ([(?c1, ?r1)] @ es) = [(ns_fd n, ns_flag n)]" "r = Stop (Exit 1)"
      by (auto simp: is_open_def setns_of_none list_all_iff)
    then show ?thesis
      by (intro exI [of _ "[(?c1, ?r1)] @ es"]) simp
  next
    case False
    with Cons.prems obtain s2 where rec: "setns_namespaces K nss s2 = (r, s')"
      and s2: "trace s2 = trace s @ [(?c1, ?r1), (?c2, ?r2)]"
      by (auto simp: bnd_def sys_def Let_def)
    from Cons.IH [OF rec] obtain es where es: "trace s' = trace s2 @ es"
      "list_all (\<lambda>e. \<not> is_open e) es"
      "prefix (setns_of es) (map (\<lambda>n. (ns_fd n, ns_flag n)) nss)"
      "r = Val () \<longrightarrow> setns_of es = map (\<lambda>n. (ns_fd n, ns_flag n)) nss"
      "\<forall>h. r = Stop h \<longrightarrow> h = Exit 1"
      by blast
    let ?es = "[(?c1, ?r1), (?c2, ?r2)] @ es"
    have "trace s' = trace s @ ?es"
      using es(1) s2 by simp
    moreover have "list_all (\<lambda>e. \<not> is_open e) ?es"
      using es(2) by (simp add: is_open_def)
    moreover have "prefix (setns_of ?es) (map (\<lambda>n. (ns_fd n, ns_flag n)) (n # nss))"
      using es(3) by simp
    moreover have "r = Val () \<longrightarrow> setns_of ?es = map (\<lambda>n. (ns_fd n, ns_flag n)) (n # nss)"
      using es(4) by simp
    ultimately show ?thesis
      using es(5) by blast
  qed
qed

lemma sys_run:
  assumes "sys K c s = (r, s')"
  shows "r = Val (K (trace s) c) \<and> trace s' = trace s @ [(c, K (trace s) c)]"
  using assms by (auto simp: sys_def Let_def)

lemma map_ns_entry:
  "length toks = length os \<Longrightarrow>
   map (\<lambda>n. (ns_fd n, ns_flag n)) (map2 ns_entry toks (map snd os)) =
     map2 (\<lambda>tok x. (snd x, nsflag (ns_kind tok))) toks os"
  by (induction toks os rule: list_induct2) simp_all

lemma join_namespaces_trace:
  assumes "join_namespaces K nslist s = (r, s')"
  shows "\<exists>es. trace s' = trace s @ es \<and>
           never_after is_open is_setns es \<and>
           (setns_of es \<noteq> [] \<longrightarrow>
              map fst (opens_of es) = map ns_file (strtok_all nslist '','') \<and>
              list_all (\<lambda>x. 0 \<le> snd x) (opens_of es)) \<and>
           prefix (setns_of es)
             (map2 (\<lambda>tok x. (snd x, nsflag (ns_kind tok))) (strtok_all nslist '','') (opens_of es)) \<and>
           (\<forall>h. r = Stop h \<longrightarrow> h = Exit 1) \<and>
           (r = Val () \<longrightarrow>
              setns_of es =
                map2 (\<lambda>tok x. (snd x, nsflag (ns_kind tok))) (strtok_all nslist '','')
                  (opens_of es))"
proof (cases "strtok_all nslist '','' = [] \<or> length (hd (strtok_all nslist '','')) = 0 \<or>
              length (strtok_head nslist '','') = 0")
  case True
  with assms have "r = Stop (Exit 1)"
    and "\<exists>es. trace s' = trace s @ es \<and> list_all (\<lambda>e. \<not> is_setns e \<and> \<not> is_open e) es"
    by (auto simp: join_namespaces_def bail_run is_setns_def is_open_def split: list.splits if_splits)
  then obtain es where es: "trace s' = trace s @ es" "list_all (\<lambda>e. \<not> is_setns e) es"
    "list_all (\<lambda>e. \<not> is_open e) es"
    by (auto simp: list_all_iff)
  with \<open>r = Stop (Exit 1)\<close> show ?thesis
    by (intro exI [of _ es]) (simp add: setns_of_none opens_of_none never_after_no_A)
next
  case False
  let ?toks = "strtok_all nslist '',''"
  from False assms have run: "bnd (open_namespaces K ?toks []) (\<lambda>nss.
            bnd (setns_namespaces K nss) (\<lambda>_.
            bnd (sys K Sys_free) (\<lambda>_. ret ()))) s = (r, s')"
    by (auto simp: join_namespaces_def split: list.splits)
  from run show ?thesis
  proof (cases rule: bnd_cases)
    case (stop h)
    from open_namespaces_trace [OF stop(1)] obtain es where es: "trace s' = trace s @ es"
      "list_all (\<lambda>e. \<not> is_setns e) es" "h = Exit 1"
      by blast
    with stop(2) show ?thesis
      by (intro exI [of _ es]) (simp add: setns_of_none never_after_no_B)
  next
    case (val nss s1)
    from open_namespaces_trace [OF val(1)] obtain es1 where es1: "trace s1 = trace s @ es1"
      "list_all (\<lambda>e. \<not> is_setns e) es1"
      "nss = map2 ns_entry ?toks (map snd (opens_of es1))"
      "map fst (opens_of es1) = map ns_file ?toks"
      "list_all (\<lambda>x. 0 \<le> snd x) (opens_of es1)"
      by auto
    from es1(4) have len: "length ?toks = length (opens_of es1)"
      by (metis length_map)
    have nss: "map (\<lambda>n. (ns_fd n, ns_flag n)) nss =
        map2 (\<lambda>tok x. (snd x, nsflag (ns_kind tok))) ?toks (opens_of es1)"
      unfolding es1(3) by (rule map_ns_entry [OF len])
    have "\<exists>es2. trace s' = trace s1 @ es2 \<and> list_all (\<lambda>e. \<not> is_open e) es2 \<and>
            prefix (setns_of es2) (map (\<lambda>n. (ns_fd n, ns_flag n)) nss) \<and>
            (\<forall>h. r = Stop h \<longrightarrow> h = Exit 1) \<and>
            (r = Val () \<longrightarrow> setns_of es2 = map (\<lambda>n. (ns_fd n, ns_flag n)) nss)"
      using val(2)
    proof (cases rule: bnd_cases)
      case (stop h)
      from setns_namespaces_trace [OF stop(1)] stop(2) show ?thesis
        by auto
    next
      case (val u s2)
      from setns_namespaces_trace [OF val(1)] obtain es2 where es2: "trace s2 = trace s1 @ es2"
        "list_all (\<lambda>e. \<not> is_open e) es2"
        "setns_of es2 = map (\<lambda>n. (ns_fd n, ns_flag n)) nss"
        by auto
      from val(2) have "trace s' = trace s2 @ [(Sys_free, K (trace s2) Sys_free)]" "r = Val ()"
        by (auto simp: bnd_def sys_def Let_def ret_def)
      with es2 show ?thesis
        by (intro exI [of _ "es2 @ [(Sys_free, K (trace s2) Sys_free)]"]) (simp add: is_open_def)
    qed
    then obtain es2 where es2: "trace s' = trace s1 @ es2" "list_all (\<lambda>e. \<not> is_open e) es2"
      "prefix (setns_of es2) (map (\<lambda>n. (ns_fd n, ns_flag n)) nss)"
      "r = Val () \<longrightarrow> setns_of es2 = map (\<lambda>n. (ns_fd n, ns_flag n)) nss"
      "\<forall>h. r = Stop h \<longrightarrow> h = Exit 1"
      by blast
    show ?thesis
      using es1 es2 nss
      by (intro exI [of _ "es1 @ es2"])
        (simp add: setns_of_none opens_of_none never_after_append never_after_no_A
          never_after_no_B)
  qed
qed

lemma emits_case_option:
  assumes "x = None \<Longrightarrow> emits P a" and "\<And>y. x = Some y \<Longrightarrow> emits P (b y)"
  shows "emits P (case x of None \<Rightarrow> a | Some y \<Rightarrow> b y)"
  using assms by (cases x) simp_all

lemma emits_case_prod:
  assumes "\<And>a b. emits P (f a b)"
  shows "emits P (case x of (a, b) \<Rightarrow> f a b)"
  using assms by (cases x) simp

lemma emits_case_list:
  assumes "xs = [] \<Longrightarrow> emits P a" and "\<And>y ys. xs = y # ys \<Longrightarrow> emits P (b y ys)"
  shows "emits P (case xs of [] \<Rightarrow> a | y # ys \<Rightarrow> b y ys)"
  using assms by (cases xs) simp_all

lemma emits_case_sysret:
  assumes "\<And>n. emits P (a n)" and "\<And>e. emits P (b e)" and "\<And>bs. emits P (c bs)"
    and "\<And>x y. emits P (d x y)"
  shows "emits P (case r of Ok n \<Rightarrow> a n | Fail e \<Rightarrow> b e | Data bs \<Rightarrow> c bs | Fds x y \<Rightarrow> d x y)"
  using assms by (cases r) simp_all

lemma emits_Let:
  assumes "emits P (f x)"
  shows "emits P (Let x f)"
  using assms by simp

lemmas emits_rules =
  emits_bnd emits_if emits_case_option emits_case_prod emits_case_list emits_case_sysret
  emits_Let emits_ret emits_halt_with emits_get_errno emits_get_logfd emits_get_syncfd
  emits_set_logfd emits_set_syncfd emits_set_errno

lemma emits_read_int:
  assumes "\<And>r. P (Sys_read fd 4, r)"
  shows "emits P (read_int K fd)"
  unfolding read_int_def by (intro emits_rules emits_sys assms)

lemma emits_clone_parent:
  assumes "\<And>r. P (Sys_clone_parent j, r)"
  shows "emits P (clone_parent K j)"
  unfolding clone_parent_def by (intro emits_rules emits_sys assms)

lemma emits_open_namespaces:
  assumes "\<And>n r. P (Sys_realloc n, r)" and "\<And>p f r. P (Sys_open p f, r)"
    and "\<And>fd t r. P (Sys_dprintf fd t, r)"
  shows "emits P (open_namespaces K toks nss)"
proof (induction toks arbitrary: nss)
  case Nil
  show ?case by simp
next
  case (Cons tok toks)
  show ?case
    unfolding open_namespaces.simps
    by (intro emits_rules emits_sys emits_bail assms Cons.IH)
qed

lemma emits_setns_namespaces:
  assumes "\<And>fd f r. P (Sys_setns fd f, r)" and "\<And>fd r. P (Sys_close fd, r)"
    and "\<And>fd t r. P (Sys_dprintf fd t, r)"
  shows "emits P (setns_namespaces K nss)"
proof (induction nss)
  case Nil
  show ?case by simp
next
  case (Cons n nss)
  show ?case
    unfolding setns_namespaces.simps
    by (intro emits_rules emits_sys emits_bail assms Cons.IH)
qed

lemma emits_join_namespaces:
  assumes "\<And>n r. P (Sys_realloc n, r)" and "\<And>p f r. P (Sys_open p f, r)"
    and "\<And>fd f r. P (Sys_setns fd f, r)" and "\<And>fd r. P (Sys_close fd, r)"
    and "\<And>r. P (Sys_free, r)"
    and "\<And>fd t r. P (Sys_dprintf fd t, r)"
  shows "emits P (join_namespaces K nslist)"
  unfolding join_namespaces_def
  by (intro emits_rules emits_sys emits_bail emits_open_namespaces emits_setns_namespaces assms)

lemma emits_mount_shiftfs_loop:
  assumes "\<And>a b c d e r. P (Sys_mount a b c d e, r)"
  shows "emits P (mount_shiftfs_loop K rfs toks)"
proof (induction toks)
  case Nil
  show ?case by simp
next
  case (Cons tok toks)
  show ?case
    unfolding mount_shiftfs_loop.simps
    by (intro emits_rules emits_sys Cons.IH) (simp add: assms)
qed

lemma emits_mount_shiftfs:
  assumes "\<And>a b c d e r. P (Sys_mount a b c d e, r)"
  shows "emits P (mount_shiftfs K config)"
  unfolding mount_shiftfs_def
  by (intro emits_rules emits_mount_shiftfs_loop assms)

lemma emits_waitpid_loop:
  assumes "\<And>p r. P (Sys_waitpid p, r)" and "\<And>fd t r. P (Sys_dprintf fd t, r)"
  shows "emits P (waitpid_loop n K child)"
proof (induction n)
  case 0
  show ?case by simp
next
  case (Suc n)
  show ?case
    unfolding waitpid_loop.simps
    by (intro emits_rules emits_sys emits_bail assms Suc.IH)
qed

lemma emits_try_mapping_tool:
  assumes "\<And>r. P (Sys_fork, r)" and "\<And>a argv envp r. P (Sys_execve a argv envp, r)"
    and "\<And>p r. P (Sys_waitpid p, r)" and "\<And>fd t r. P (Sys_dprintf fd t, r)"
  shows "emits P (try_mapping_tool fuel K app pid mp map_len)"
  unfolding try_mapping_tool_def
  by (intro emits_rules emits_sys emits_bail emits_waitpid_loop assms)

section \<open>Claims\<close>

subsection \<open>The setgroups file\<close>

text \<open>
  C9.  When \<^verbatim>\<open>update_setgroups\<close> has a policy to write (\<^verbatim>\<open>allow\<close> or \<^verbatim>\<open>deny\<close>) and
  \<^verbatim>\<open>write_file\<close> on \<^verbatim>\<open>/proc/<pid>/setgroups\<close> fails, the value of \<^verbatim>\<open>errno\<close> decides:
  with \<^verbatim>\<open>ENOENT\<close> the function returns, in the state \<^verbatim>\<open>write_file\<close> left, so without
  a log line or any other call; with any other value the process ends with exit
  status 1.
\<close>

theorem update_setgroups_enoent:
  assumes "policy_text setgroup = Some policy"
    and "write_file K policy (length policy) (setgroups_path pid) s = (Val r, s')"
    and "r < 0"
  shows "(errno s' = ENOENT \<longrightarrow> update_setgroups K pid setgroup s = (Val (), s')) \<and>
         (errno s' \<noteq> ENOENT \<longrightarrow> fst (update_setgroups K pid setgroup s) = Stop (Exit 1))"
  using assms
  by (simp add: update_setgroups_def bnd_def get_errno_def ret_def bail_exit)

theorem update_setgroups_enoent_witness:
  "update_setgroups (K_open_fails ENOENT) 7 SETGROUPS_DENY proc0 =
     (Val (), proc0\<lparr>trace := [(Sys_open (setgroups_path 7) O_RDWR, Fail ENOENT)],
                     errno := ENOENT\<rparr>) \<and>
   fst (update_setgroups (K_open_fails EACCES) 7 SETGROUPS_ALLOW proc0) = Stop (Exit 1)"
proof -
  have p: "length (setgroups_path 7) \<le> 4095"
    by (simp add: setgroups_path_def dec_def dec_nat.simps)
  have d: "policy_text SETGROUPS_DENY = Some ''deny''"
    and a: "policy_text SETGROUPS_ALLOW = Some ''allow''"
    by (simp_all add: policy_text_def)
  have w1: "write_file (K_open_fails ENOENT) ''deny'' (length ''deny'') (setgroups_path 7) proc0 =
     (Val (- 1), proc0\<lparr>trace := [(Sys_open (setgroups_path 7) O_RDWR, Fail ENOENT)],
                     errno := ENOENT\<rparr>)"
    by (simp add: write_file_open_fails p proc0_def)
  have w2: "write_file (K_open_fails EACCES) ''allow'' (length ''allow'') (setgroups_path 7) proc0 =
     (Val (- 1), proc0\<lparr>trace := [(Sys_open (setgroups_path 7) O_RDWR, Fail EACCES)],
                     errno := EACCES\<rparr>)"
    by (simp add: write_file_open_fails p proc0_def)
  from update_setgroups_enoent [OF d w1] update_setgroups_enoent [OF a w2]
  show ?thesis
    by simp
qed

subsection \<open>The mapping tool that is not there\<close>

text \<open>
  C8.  \<^verbatim>\<open>update_uidmap\<close> and \<^verbatim>\<open>update_gidmap\<close> with a \<^verbatim>\<open>NULL\<close> helper path, when
  \<^verbatim>\<open>write_file\<close> on the map file has failed and left \<^verbatim>\<open>errno\<close> at \<^verbatim>\<open>EPERM\<close>: the process
  ends with exit status 1; after the failed write it makes one more call when a log
  pipe is attached (\<^verbatim>\<open>logfd >= 0\<close>), the log line at level \<^verbatim>\<open>fatal\<close> with the message
  \<^verbatim>\<open>nsenter: mapping tool not present: \<close> and the text of \<^verbatim>\<open>EPERM\<close>, and none at all
  otherwise; no \<^verbatim>\<open>execve\<close> is among the calls of the whole run.
\<close>

theorem mapping_tool_absent:
  assumes "0 < map_len"
    and "(upd = update_uidmap \<and> path = uid_map_path pid) \<or>
         (upd = update_gidmap \<and> path = gid_map_path pid)"
    and "write_file K m map_len path s = (Val r, s')"
    and "r < 0" and "errno s' = EPERM"
  shows "fst (upd fuel K None pid (Some m) map_len s) = Stop (Exit 1) \<and>
         map fst (emitted s' (snd (upd fuel K None pid (Some m) map_len s))) =
           (if logfd s' < 0 then []
            else [Sys_dprintf (logfd s')
                    (log_line FATAL ''try_mapping_tool'' 266
                       (bail_message ''mapping tool not present'' EPERM))]) \<and>
         list_all (\<lambda>e. \<not> is_execve e)
           (emitted s (snd (upd fuel K None pid (Some m) map_len s)))"
proof -
  let ?b = "(bail K ''try_mapping_tool'' 266 ''mapping tool not present'' s' :: unit res \<times> proc)"
  from assms have run: "upd fuel K None pid (Some m) map_len s = ?b"
    by (auto simp: uidmap_no_tool gidmap_no_tool)
  from write_file_no_execve [OF assms(3)] obtain es1
    where es1: "trace s' = trace s @ es1" "list_all (\<lambda>e. \<not> is_execve e) es1"
    by blast
  from bail_trace [of K "''try_mapping_tool''" 266 "''mapping tool not present''" s',
      where ?'a = unit]
  obtain es2 where es2: "trace (snd ?b) = trace s' @ es2" "list_all (\<lambda>e. \<not> is_execve e) es2"
    by blast
  from es2(1) have "trace (snd ?b) = trace s @ (es1 @ es2)"
    unfolding es1(1) by simp
  then have "emitted s (snd ?b) = es1 @ es2"
    by (rule emitted_append)
  with es1 es2 have "list_all (\<lambda>e. \<not> is_execve e) (emitted s (snd ?b))"
    by simp
  moreover have "fst ?b = Stop (Exit 1)"
    by (rule bail_exit)
  moreover have "map fst (emitted s' (snd ?b)) =
           (if logfd s' < 0 then []
            else [Sys_dprintf (logfd s')
                    (log_line FATAL ''try_mapping_tool'' 266
                       (bail_message ''mapping tool not present'' EPERM))])"
    using assms(5) by (simp add: bail_run)
  ultimately show ?thesis
    unfolding run by blast
qed

theorem mapping_tool_absent_witness:
  "fst (update_uidmap 1 (K_open_fails EPERM) None 7 (Some ''0 1000 1'') 9 (proc0\<lparr>logfd := 5\<rparr>))
     = Stop (Exit 1) \<and>
   map fst (emitted
              (proc0\<lparr>logfd := 5, trace := [(Sys_open (uid_map_path 7) O_RDWR, Fail EPERM)],
                     errno := EPERM\<rparr>)
              (snd (update_uidmap 1 (K_open_fails EPERM) None 7 (Some ''0 1000 1'') 9
                      (proc0\<lparr>logfd := 5\<rparr>)))) =
     [Sys_dprintf 5 (log_line FATAL ''try_mapping_tool'' 266
                       (bail_message ''mapping tool not present'' EPERM))] \<and>
   fst (update_gidmap 1 (K_open_fails EPERM) None 7 (Some ''0 1000 1'') 9 (proc0\<lparr>logfd := 5\<rparr>))
     = Stop (Exit 1)"
proof -
  let ?s = "proc0\<lparr>logfd := 5\<rparr>"
  let ?s' = "proc0\<lparr>logfd := 5, trace := [(Sys_open (uid_map_path 7) O_RDWR, Fail EPERM)],
                errno := EPERM\<rparr>"
  let ?t' = "proc0\<lparr>logfd := 5, trace := [(Sys_open (gid_map_path 7) O_RDWR, Fail EPERM)],
                errno := EPERM\<rparr>"
  have w: "write_file (K_open_fails EPERM) ''0 1000 1'' 9 (uid_map_path 7) ?s = (Val (- 1), ?s')"
    by (simp add: write_file_open_fails uid_map_path_7 proc0_def)
  have g: "write_file (K_open_fails EPERM) ''0 1000 1'' 9 (gid_map_path 7) ?s = (Val (- 1), ?t')"
    by (simp add: write_file_open_fails gid_map_path_7 proc0_def)
  have "fst (update_uidmap 1 (K_open_fails EPERM) None 7 (Some ''0 1000 1'') 9 ?s) = Stop (Exit 1) \<and>
    map fst (emitted ?s' (snd (update_uidmap 1 (K_open_fails EPERM) None 7 (Some ''0 1000 1'') 9 ?s))) =
      (if logfd ?s' < 0 then []
       else [Sys_dprintf (logfd ?s') (log_line FATAL ''try_mapping_tool'' 266
                       (bail_message ''mapping tool not present'' EPERM))])"
    using mapping_tool_absent [of 9 update_uidmap "uid_map_path 7" 7 "K_open_fails EPERM"
      "''0 1000 1''" ?s "- 1" ?s' 1] w by simp
  moreover have "fst (update_gidmap 1 (K_open_fails EPERM) None 7 (Some ''0 1000 1'') 9 ?s)
       = Stop (Exit 1)"
    using mapping_tool_absent [of 9 update_gidmap "gid_map_path 7" 7 "K_open_fails EPERM"
      "''0 1000 1''" ?s "- 1" ?t' 1] g by simp
  ultimately show ?thesis
    by (simp add: proc0_def)
qed

text \<open>
  Without a log pipe the message of C8 appears nowhere: the run below ends with exit
  status 1 and its only call is the \<^verbatim>\<open>open\<close> that failed.
\<close>

theorem mapping_tool_absent_silent:
  "update_uidmap 1 (K_open_fails EPERM) None 7 (Some ''0 1000 1'') 9 proc0 =
     (Stop (Exit 1),
      proc0\<lparr>trace := [(Sys_open (uid_map_path 7) O_RDWR, Fail EPERM)], errno := EPERM\<rparr>)"
proof -
  let ?s' = "proc0\<lparr>trace := trace proc0 @ [(Sys_open (uid_map_path 7) O_RDWR, Fail EPERM)],
                errno := EPERM\<rparr>"
  have w: "write_file (K_open_fails EPERM) ''0 1000 1'' 9 (uid_map_path 7) proc0 = (Val (- 1), ?s')"
    by (simp add: write_file_open_fails uid_map_path_7)
  have "update_uidmap 1 (K_open_fails EPERM) None 7 (Some ''0 1000 1'') 9 proc0 =
        bail (K_open_fails EPERM) ''try_mapping_tool'' 266 ''mapping tool not present'' ?s'"
    by (rule uidmap_no_tool [OF _ w]) simp_all
  then show ?thesis
    by (simp add: bail_run proc0_def)
qed

end
